theory Spec2Isabelle
  imports Main "HOL-Library.Char_ord" "HOL-Library.List_Lexorder" "HOL-Library.Multiset"
    "HOL-Library.Code_Target_Nat"
begin

section \<open>JavaScript values\<close>

text \<open>
  The values that flow through \<^verbatim>\<open>PackageRequest.js\<close> are JSON documents (what
  \<^verbatim>\<open>JSON.parse\<close> returns, what the HTTP client decodes) and \<^verbatim>\<open>undefined\<close>. Numbers
  are restricted to integers (status codes, array lengths). An object is the list of its
  own enumerable properties in enumeration order, each key once. Strings are lists of code
  units below 256.
\<close>

datatype js =
    JUndefined
  | JNull
  | JBool bool
  | JNum int
  | JStr string
  | JArr "js list"
  | JObj "(string \<times> js) list"

record response =
  statusCode :: "nat option"
  body :: js

datatype got_kind = HTTPError | ParseError | RequestError

text \<open>
  Exceptions. \<open>GotError\<close> is an error of the HTTP client; the client attaches the response
  when it has one (\<^verbatim>\<open>error.response\<close>). \<open>GitHubError\<close> carries \<^verbatim>\<open>err.code\<close>.
\<close>

datatype error =
    TypeError
  | Error string
  | GotError got_kind "response option"
  | AggregateError "error list"
  | GitHubError nat

fun js_truthy :: "js \<Rightarrow> bool" where
  "js_truthy JUndefined = False"
| "js_truthy JNull = False"
| "js_truthy (JBool b) = b"
| "js_truthy (JNum n) = (n \<noteq> 0)"
| "js_truthy (JStr s) = (s \<noteq> [])"
| "js_truthy (JArr xs) = True"
| "js_truthy (JObj kvs) = True"

definition is_digit :: "char \<Rightarrow> bool" where
  "is_digit c = (48 \<le> (of_char c :: nat) \<and> (of_char c :: nat) \<le> 57)"

definition digit_val :: "char \<Rightarrow> nat" where
  "digit_val c = (of_char c :: nat) - 48"

definition nat_of_digits :: "string \<Rightarrow> nat" where
  "nat_of_digits s = foldl (\<lambda>n c. 10 * n + digit_val c) 0 s"

fun show_nat :: "nat \<Rightarrow> string" where
  "show_nat n =
     (if n < 10 then [char_of (48 + n)]
      else show_nat (n div 10) @ [char_of (48 + n mod 10)])"

text \<open>
  An array index as a property key: the canonical decimal form of a number (\<^verbatim>\<open>"0"\<close>,
  \<^verbatim>\<open>"17"\<close>; not \<^verbatim>\<open>"01"\<close>).
\<close>

definition array_index :: "string \<Rightarrow> nat option" where
  "array_index k =
     (if k \<noteq> [] \<and> list_all is_digit k \<and> (k = ''0'' \<or> hd k \<noteq> CHR ''0'')
      then Some (nat_of_digits k) else None)"

text \<open>
  \<^verbatim>\<open>o.hasOwnProperty(k)\<close>. On \<^verbatim>\<open>null\<close> and \<^verbatim>\<open>undefined\<close> the property access itself
  throws a TypeError. An array owns its indices and \<^verbatim>\<open>length\<close>; so does a string.
  An object of a JSON document with an own property of that very name shadows the method
  with a value that is not a function, and the call throws.
\<close>

fun hasOwnProperty :: "js \<Rightarrow> string \<Rightarrow> error + bool" where
  "hasOwnProperty JUndefined k = Inl TypeError"
| "hasOwnProperty JNull k = Inl TypeError"
| "hasOwnProperty (JBool b) k = Inr False"
| "hasOwnProperty (JNum n) k = Inr False"
| "hasOwnProperty (JStr s) k =
     Inr (k = ''length'' \<or> (case array_index k of None \<Rightarrow> False | Some i \<Rightarrow> i < length s))"
| "hasOwnProperty (JArr xs) k =
     Inr (k = ''length'' \<or> (case array_index k of None \<Rightarrow> False | Some i \<Rightarrow> i < length xs))"
| "hasOwnProperty (JObj kvs) k =
     (if ''hasOwnProperty'' \<in> fst ` set kvs then Inl TypeError else Inr (k \<in> fst ` set kvs))"

text \<open>
  \<^verbatim>\<open>o[k]\<close> for a key that is not inherited from a prototype (\<^verbatim>\<open>versions\<close>, \<^verbatim>\<open>tags\<close>,
  \<^verbatim>\<open>name\<close>, \<^verbatim>\<open>dist-tags\<close>, or a key \<^verbatim>\<open>hasOwnProperty\<close> accepted): the own property, or
  \<^verbatim>\<open>undefined\<close>. Reading a property of \<^verbatim>\<open>null\<close> or \<^verbatim>\<open>undefined\<close> throws.
\<close>

fun js_get :: "js \<Rightarrow> string \<Rightarrow> error + js" where
  "js_get JUndefined k = Inl TypeError"
| "js_get JNull k = Inl TypeError"
| "js_get (JBool b) k = Inr JUndefined"
| "js_get (JNum n) k = Inr JUndefined"
| "js_get (JStr s) k =
     Inr (if k = ''length'' then JNum (int (length s))
          else (case array_index k of
                  None \<Rightarrow> JUndefined
                | Some i \<Rightarrow> if i < length s then JStr [s ! i] else JUndefined))"
| "js_get (JArr xs) k =
     Inr (if k = ''length'' then JNum (int (length xs))
          else (case array_index k of
                  None \<Rightarrow> JUndefined
                | Some i \<Rightarrow> if i < length xs then xs ! i else JUndefined))"
| "js_get (JObj kvs) k = Inr (case map_of kvs k of None \<Rightarrow> JUndefined | Some v \<Rightarrow> v)"

text \<open>\<^verbatim>\<open>Object.keys(o)\<close> for a value that is neither \<^verbatim>\<open>null\<close> nor \<^verbatim>\<open>undefined\<close>.\<close>

fun Object_keys :: "js \<Rightarrow> string list" where
  "Object_keys (JObj kvs) = map fst kvs"
| "Object_keys (JArr xs) = map show_nat [0 ..< length xs]"
| "Object_keys (JStr s) = map show_nat [0 ..< length s]"
| "Object_keys v = []"

text \<open>
  \<^verbatim>\<open>JSON.stringify\<close> drops the properties of an object whose value is \<^verbatim>\<open>undefined\<close> and
  writes \<^verbatim>\<open>null\<close> for an \<^verbatim>\<open>undefined\<close> array element. \<open>json_norm v\<close> is the document
  that the text \<^verbatim>\<open>JSON.stringify(v)\<close> denotes.
\<close>

fun json_norm :: "js \<Rightarrow> js" where
  "json_norm (JArr xs) = JArr (map (\<lambda>x. if x = JUndefined then JNull else json_norm x) xs)"
| "json_norm (JObj kvs) =
     JObj (map (\<lambda>(k, v). (k, json_norm v)) (filter (\<lambda>(k, v). v \<noteq> JUndefined) kvs))"
| "json_norm v = v"

text \<open>
  A JSON text is represented by the document it denotes: the cache holds texts written by
  \<^verbatim>\<open>JSON.stringify\<close>, and \<^verbatim>\<open>JSON.parse\<close> of such a text returns its document. The
  program stringifies objects only, so the text is never empty nor \<^verbatim>\<open>undefined\<close>.
\<close>

datatype json_text = Text js

definition JSON_stringify :: "js \<Rightarrow> json_text" where
  "JSON_stringify v = Text (json_norm v)"

fun JSON_parse :: "json_text \<Rightarrow> js" where
  "JSON_parse (Text d) = d"


section \<open>The semver package\<close>

text \<open>
  The program calls \<^verbatim>\<open>semver.valid\<close>, \<^verbatim>\<open>semver.prerelease\<close>, \<^verbatim>\<open>semver.rcompare\<close> and
  \<^verbatim>\<open>semver.maxSatisfying\<close>, all in strict mode. Versions are modelled after the
  package's strict grammar and precedence rules. A numeric prerelease identifier is
  compared as a natural number (the package compares the doubles, which is the same below
  \<open>2^53\<close>). The grammar of ranges is not modelled: the \<^verbatim>\<open>Range\<close> constructor is a
  parameter of \<open>maxSatisfying\<close>.
\<close>

datatype ident = NumId nat | StrId string

record SemVer =
  major :: nat
  minor :: nat
  patch :: nat
  prerelease :: "ident list"

definition MAX_LENGTH :: nat where
  "MAX_LENGTH = 256"

definition MAX_SAFE_INTEGER :: nat where
  "MAX_SAFE_INTEGER = 9007199254740991"

text \<open>\<^verbatim>\<open>s.split(c)\<close>: the pieces between the occurrences of \<open>c\<close>, empty ones included.\<close>

fun splitOn :: "char \<Rightarrow> string \<Rightarrow> string list" where
  "splitOn c [] = [] # []"
| "splitOn c (x # xs) =
     (if x = c then [] # splitOn c xs
      else (case splitOn c xs of [] \<Rightarrow> [x] # [] | y # ys \<Rightarrow> (x # y) # ys))"

definition is_space :: "char \<Rightarrow> bool" where
  "is_space c = ((of_char c :: nat) \<in> {9, 10, 11, 12, 13, 32, 160})"

definition trim :: "string \<Rightarrow> string" where
  "trim s = rev (dropWhile is_space (rev (dropWhile is_space s)))"

definition is_idchar :: "char \<Rightarrow> bool" where
  "is_idchar c =
     (is_digit c \<or> c = CHR ''-''
      \<or> (65 \<le> (of_char c :: nat) \<and> (of_char c :: nat) \<le> 90)
      \<or> (97 \<le> (of_char c :: nat) \<and> (of_char c :: nat) \<le> 122))"

text \<open>\<^verbatim>\<open>0|[1-9]\d*\<close>\<close>

definition numeric_identifier :: "string \<Rightarrow> bool" where
  "numeric_identifier s = (s \<noteq> [] \<and> list_all is_digit s \<and> (s = ''0'' \<or> hd s \<noteq> CHR ''0''))"

text \<open>\<^verbatim>\<open>0|[1-9]\d*|\d*[a-zA-Z-][a-zA-Z0-9-]*\<close>\<close>

definition prerelease_identifier :: "string \<Rightarrow> bool" where
  "prerelease_identifier s =
     (s \<noteq> [] \<and> list_all is_idchar s \<and> (list_all is_digit s \<longrightarrow> numeric_identifier s))"

text \<open>\<^verbatim>\<open>[0-9A-Za-z-]+\<close>\<close>

definition build_identifier :: "string \<Rightarrow> bool" where
  "build_identifier s = (s \<noteq> [] \<and> list_all is_idchar s)"

text \<open>
  The regular expression \<^verbatim>\<open>FULL\<close>:
  \<^verbatim>\<open>^v?(num)\.(num)\.(num)(?:-(pre(?:\.pre)*))?(?:\+(build(?:\.build)*))?$\<close>.
  No identifier contains \<^verbatim>\<open>+\<close> and the main part contains no \<^verbatim>\<open>-\<close>, so the build
  part starts at the first \<^verbatim>\<open>+\<close> and the prerelease part at the first \<^verbatim>\<open>-\<close> before
  it. The result is the three numeric groups and the prerelease identifiers.
\<close>

definition match_FULL :: "string \<Rightarrow> (string \<times> string \<times> string \<times> string list) option" where
  "match_FULL s =
     (let pb = takeWhile (\<lambda>c. c \<noteq> CHR ''+'') s;
          bld = dropWhile (\<lambda>c. c \<noteq> CHR ''+'') s;
          mn = takeWhile (\<lambda>c. c \<noteq> CHR ''-'') pb;
          pre = dropWhile (\<lambda>c. c \<noteq> CHR ''-'') pb;
          nums = splitOn (CHR ''.'')
                   (case mn of [] \<Rightarrow> mn | c # r \<Rightarrow> if c = CHR ''v'' then r else mn);
          pre_ids = (if pre = [] then [] else splitOn (CHR ''.'') (tl pre));
          bld_ids = (if bld = [] then [] else splitOn (CHR ''.'') (tl bld))
      in if length nums = 3 \<and> list_all numeric_identifier nums
            \<and> list_all prerelease_identifier pre_ids \<and> list_all build_identifier bld_ids
         then Some (nums ! 0, nums ! 1, nums ! 2, pre_ids)
         else None)"

definition to_ident :: "string \<Rightarrow> ident" where
  "to_ident s = (if list_all is_digit s then NumId (nat_of_digits s) else StrId s)"

text \<open>\<^verbatim>\<open>new SemVer(version)\<close>: throws a TypeError on an invalid version.\<close>

definition SemVer_new :: "string \<Rightarrow> error + SemVer" where
  "SemVer_new version =
     (if length version > MAX_LENGTH then Inl TypeError
      else (case match_FULL (trim version) of
              None \<Rightarrow> Inl TypeError
            | Some (m1, m2, m3, pre) \<Rightarrow>
                if nat_of_digits m1 > MAX_SAFE_INTEGER \<or> nat_of_digits m2 > MAX_SAFE_INTEGER
                   \<or> nat_of_digits m3 > MAX_SAFE_INTEGER
                then Inl TypeError
                else Inr \<lparr>major = nat_of_digits m1, minor = nat_of_digits m2,
                          patch = nat_of_digits m3, prerelease = map to_ident pre\<rparr>))"

text \<open>
  \<^verbatim>\<open>parse(version)\<close>: \<^verbatim>\<open>null\<close> unless \<open>version\<close> is a string of at most 256 characters
  that matches \<^verbatim>\<open>FULL\<close> untrimmed and that the constructor accepts.
\<close>

definition parse :: "js \<Rightarrow> SemVer option" where
  "parse version =
     (case version of
        JStr s \<Rightarrow>
          if length s > MAX_LENGTH then None
          else if match_FULL s = None then None
          else (case SemVer_new s of Inl e \<Rightarrow> None | Inr sv \<Rightarrow> Some sv)
      | _ \<Rightarrow> None)"

text \<open>
  \<^verbatim>\<open>semver.valid(v)\<close> returns the normalised version string, which is never empty, or
  \<^verbatim>\<open>null\<close>; \<^verbatim>\<open>semver.prerelease(v)\<close> returns the non-empty array of prerelease
  identifiers or \<^verbatim>\<open>null\<close>. The program uses both as conditions only, so each is modelled
  by its truth value.
\<close>

definition valid :: "js \<Rightarrow> bool" where
  "valid v = (parse v \<noteq> None)"

definition prerelease_of :: "js \<Rightarrow> bool" where
  "prerelease_of v = (case parse v of None \<Rightarrow> False | Some sv \<Rightarrow> prerelease sv \<noteq> [])"

definition cmp_nat :: "nat \<Rightarrow> nat \<Rightarrow> int" where
  "cmp_nat a b = (if a < b then - 1 else if a > b then 1 else 0)"

fun compareIdentifiers :: "ident \<Rightarrow> ident \<Rightarrow> int" where
  "compareIdentifiers (NumId a) (NumId b) = cmp_nat a b"
| "compareIdentifiers (NumId a) (StrId b) = - 1"
| "compareIdentifiers (StrId a) (NumId b) = 1"
| "compareIdentifiers (StrId a) (StrId b) = (if a < b then - 1 else if a > b then 1 else 0)"

definition compareMain :: "SemVer \<Rightarrow> SemVer \<Rightarrow> int" where
  "compareMain a b =
     (if cmp_nat (major a) (major b) \<noteq> 0 then cmp_nat (major a) (major b)
      else if cmp_nat (minor a) (minor b) \<noteq> 0 then cmp_nat (minor a) (minor b)
      else cmp_nat (patch a) (patch b))"

fun comparePre_loop :: "ident list \<Rightarrow> ident list \<Rightarrow> int" where
  "comparePre_loop [] [] = 0"
| "comparePre_loop (a # as) [] = 1"
| "comparePre_loop [] (b # bs) = - 1"
| "comparePre_loop (a # as) (b # bs) =
     (if a = b then comparePre_loop as bs else compareIdentifiers a b)"

definition comparePre :: "SemVer \<Rightarrow> SemVer \<Rightarrow> int" where
  "comparePre a b =
     (if prerelease a \<noteq> [] \<and> prerelease b = [] then - 1
      else if prerelease a = [] \<and> prerelease b \<noteq> [] then 1
      else if prerelease a = [] \<and> prerelease b = [] then 0
      else comparePre_loop (prerelease a) (prerelease b))"

text \<open>
  \<^verbatim>\<open>SemVer.prototype.compare\<close>. The package first returns 0 when the two normalised
  version strings are equal; \<open>compareMain\<close> and \<open>comparePre\<close> are both 0 exactly then.
\<close>

definition SemVer_compare :: "SemVer \<Rightarrow> SemVer \<Rightarrow> int" where
  "SemVer_compare a b = (if compareMain a b \<noteq> 0 then compareMain a b else comparePre a b)"

definition compare :: "string \<Rightarrow> string \<Rightarrow> error + int" where
  "compare a b =
     (case SemVer_new a of
        Inl e \<Rightarrow> Inl e
      | Inr x \<Rightarrow> (case SemVer_new b of Inl e \<Rightarrow> Inl e | Inr y \<Rightarrow> Inr (SemVer_compare x y)))"

definition rcompare :: "string \<Rightarrow> string \<Rightarrow> error + int" where
  "rcompare a b = compare b a"

text \<open>\<^verbatim>\<open>semver.gte(a, b)\<close>: \<open>a\<close> has at least the precedence of \<open>b\<close>.\<close>

definition gte :: "string \<Rightarrow> string \<Rightarrow> error + bool" where
  "gte a b = (case compare a b of Inl e \<Rightarrow> Inl e | Inr c \<Rightarrow> Inr (c \<ge> 0))"

text \<open>
  \<^verbatim>\<open>Array.prototype.sort(semver.rcompare)\<close> on an array of strings. An array of at most
  one element is returned without a call of the comparator. On a longer array every
  element is passed to the comparator at least once, so the sort throws when some element
  is not a version. Otherwise the comparator is total and the sort is a stable insertion
  sort: \<open>a\<close> stays before \<open>b\<close> when the comparator returns 0.
\<close>

fun insort_by :: "('a \<Rightarrow> 'a \<Rightarrow> int) \<Rightarrow> 'a \<Rightarrow> 'a list \<Rightarrow> 'a list" where
  "insort_by cmp x [] = [x]"
| "insort_by cmp x (y # ys) = (if cmp x y \<le> 0 then x # y # ys else y # insort_by cmp x ys)"

definition sort_by :: "('a \<Rightarrow> 'a \<Rightarrow> int) \<Rightarrow> 'a list \<Rightarrow> 'a list" where
  "sort_by cmp xs = foldr (insort_by cmp) xs []"

definition rcompare_int :: "string \<Rightarrow> string \<Rightarrow> int" where
  "rcompare_int a b = (case rcompare a b of Inl e \<Rightarrow> 0 | Inr c \<Rightarrow> c)"

definition sort_rcompare :: "string list \<Rightarrow> error + string list" where
  "sort_rcompare xs =
     (if length xs \<le> 1 then Inr xs
      else if list_ex (\<lambda>x. isl (SemVer_new x)) xs then Inl TypeError
      else Inr (sort_by rcompare_int xs))"

text \<open>
  \<^verbatim>\<open>new Range(range)\<close> is a parameter: \<open>None\<close> when the constructor throws (an invalid
  range), otherwise the predicate \<^verbatim>\<open>rangeObj.test\<close> on versions.
\<close>

type_synonym range_parser = "string \<Rightarrow> (SemVer \<Rightarrow> bool) option"

text \<open>
  \<^verbatim>\<open>semver.maxSatisfying(versions, range)\<close>: \<^verbatim>\<open>null\<close> on an invalid range, otherwise the
  first of the highest versions that satisfy the range, or \<^verbatim>\<open>null\<close> when none does. The
  program passes versions that \<open>valid\<close> accepted; a string that is not a version is
  skipped here.
\<close>

definition maxSatisfying_step ::
  "(SemVer \<Rightarrow> bool) \<Rightarrow> string \<Rightarrow> (string \<times> SemVer) option \<Rightarrow> (string \<times> SemVer) option" where
  "maxSatisfying_step test v acc =
     (case SemVer_new v of
        Inl e \<Rightarrow> acc
      | Inr sv \<Rightarrow>
          if test sv
          then (case acc of
                  None \<Rightarrow> Some (v, sv)
                | Some (m, msv) \<Rightarrow> if SemVer_compare msv sv = - 1 then Some (v, sv) else acc)
          else acc)"

definition maxSatisfying :: "range_parser \<Rightarrow> string list \<Rightarrow> string \<Rightarrow> js" where
  "maxSatisfying mkRange versions rng =
     (case mkRange rng of
        None \<Rightarrow> JNull
      | Some test \<Rightarrow>
          (case fold (maxSatisfying_step test) versions None of
             None \<Rightarrow> JNull
           | Some (m, msv) \<Rightarrow> JStr m))"

text \<open>
  A range constructor for concrete evaluation: the X-ranges \<^verbatim>\<open>*\<close>, \<^verbatim>\<open>1\<close>, \<^verbatim>\<open>1.x\<close>,
  \<^verbatim>\<open>1.2\<close>, \<^verbatim>\<open>1.2.x\<close> and the plain version \<^verbatim>\<open>1.2.3\<close>, as the package reads them
  (\<^verbatim>\<open>1.x\<close> is \<^verbatim>\<open>>=1.0.0 <2.0.0\<close>; a prerelease version satisfies none of them). Every
  other string is rejected, which is what the package does with a word such as
  \<^verbatim>\<open>latest\<close>; the other range operators are outside this fragment.
\<close>

definition is_x :: "string \<Rightarrow> bool" where
  "is_x s = (s = ''x'' \<or> s = ''X'' \<or> s = ''*'')"

definition xrange :: range_parser where
  "xrange rng =
     (let ps = splitOn (CHR ''.'') (trim rng) in
      if length ps > 3 then None
      else if trim rng = [] \<or> list_all is_x ps
        then Some (\<lambda>sv. prerelease sv = [])
      else if numeric_identifier (ps ! 0) \<and> list_all is_x (tl ps)
        then Some (\<lambda>sv. prerelease sv = [] \<and> major sv = nat_of_digits (ps ! 0))
      else if length ps \<ge> 2 \<and> numeric_identifier (ps ! 0) \<and> numeric_identifier (ps ! 1)
              \<and> list_all is_x (tl (tl ps))
        then Some (\<lambda>sv. prerelease sv = [] \<and> major sv = nat_of_digits (ps ! 0)
                        \<and> minor sv = nat_of_digits (ps ! 1))
      else if length ps = 3 \<and> list_all numeric_identifier ps
        then Some (\<lambda>sv. prerelease sv = [] \<and> major sv = nat_of_digits (ps ! 0)
                        \<and> minor sv = nat_of_digits (ps ! 1) \<and> patch sv = nat_of_digits (ps ! 2))
      else None)"


section \<open>Configuration, upstream services and the store\<close>

text \<open>
  \<^verbatim>\<open>v1Config\<close> (\<^verbatim>\<open>config.get('v1')\<close>) is not part of the sources; the fields that
  \<^verbatim>\<open>PackageRequest.js\<close> reads are parameters. \<open>maxAge t\<close> is \<^verbatim>\<open>v1Config[t].maxAge\<close>.
\<close>

record config =
  cdn_sourceUrl :: string
  npm_sourceUrl :: "string + string list"
  maxAge :: "string \<Rightarrow> nat"
  maxAgeStatic :: nat

text \<open>
  A tag listing of the hosting API as the client walks it: every response carries its
  \<^verbatim>\<open>data\<close> (an array, or absent) and either has no next page, or has one that is
  fetched, or has one whose fetch fails.
\<close>

datatype gh_response =
    LastPage "js list option"
  | NextPage "js list option" gh_response
  | NextPageFails "js list option" error

text \<open>
  The world outside the process: the HTTP client \<^verbatim>\<open>got\<close> (with \<^verbatim>\<open>json: true\<close>), the
  order in which concurrent requests settle, the hosting API, and the \<^verbatim>\<open>Range\<close>
  constructor of the semver package.
\<close>

record env =
  v1Config :: config
  got :: "string \<Rightarrow> error + response"
  settle_order :: "string list \<Rightarrow> string list"
  repos_getTags :: "string \<Rightarrow> string \<Rightarrow> error + gh_response"
  semver_Range :: range_parser

datatype call = Got string | GetTags string string nat | GetNextPage

text \<open>
  The state the program changes: the redis store (a text with its expiry in seconds, if
  one was given), the upstream calls made so far, and the error log. Expiry itself and a
  failing store are not modelled.
\<close>

record world =
  redis :: "string \<rightharpoonup> json_text \<times> nat option"
  calls :: "call list"
  logged :: "string list"

record params =
  ptype :: string
  pname :: string
  pversion :: "string option"
  puser :: string
  prepo :: string

text \<open>The part of the koa context that the handlers write.\<close>

record ctx =
  ctx_body :: js
  ctx_maxAge :: "nat option"

definition redis_getAsync :: "string \<Rightarrow> world \<Rightarrow> json_text option" where
  "redis_getAsync key w = map_option fst (redis w key)"

definition redis_setAsync :: "string \<Rightarrow> json_text \<Rightarrow> nat option \<Rightarrow> world \<Rightarrow> world" where
  "redis_setAsync key val ex w = w\<lparr>redis := (redis w)(key \<mapsto> (val, ex))\<rparr>"

definition got_call :: "env \<Rightarrow> string \<Rightarrow> world \<Rightarrow> (error + response) \<times> world" where
  "got_call e url w = (got e url, w\<lparr>calls := calls w @ [Got url]\<rparr>)"

text \<open>\<^verbatim>\<open>error.response\<close>\<close>

fun error_response :: "error \<Rightarrow> response option" where
  "error_response (GotError k r) = r"
| "error_response e = None"

text \<open>\<^verbatim>\<open>err.code\<close>\<close>

fun error_code :: "error \<Rightarrow> nat option" where
  "error_code (GitHubError c) = Some c"
| "error_code e = None"

fun is_ParseError :: "error \<Rightarrow> bool" where
  "is_ParseError (GotError k r) = (k = ParseError)"
| "is_ParseError e = False"

text \<open>A value inside a template literal: \<^verbatim>\<open>undefined\<close> prints as the word.\<close>

definition tpl :: "string option \<Rightarrow> string" where
  "tpl v = (case v of None \<Rightarrow> ''undefined'' | Some s \<Rightarrow> s)"

text \<open>The request parameter as a value: absent is \<^verbatim>\<open>undefined\<close>.\<close>

definition js_of :: "string option \<Rightarrow> js" where
  "js_of v = (case v of None \<Rightarrow> JUndefined | Some s \<Rightarrow> JStr s)"

text \<open>\<^verbatim>\<open>_.property(k)\<close>: \<^verbatim>\<open>undefined\<close> on \<^verbatim>\<open>null\<close> and \<^verbatim>\<open>undefined\<close>.\<close>

definition property :: "string \<Rightarrow> js \<Rightarrow> js" where
  "property k v = (case js_get v k of Inl e \<Rightarrow> JUndefined | Inr x \<Rightarrow> x)"

text \<open>\<^verbatim>\<open>_.map(data, 'name')\<close> on an array or on \<^verbatim>\<open>undefined\<close>.\<close>

definition lodash_map_name :: "js list option \<Rightarrow> js list" where
  "lodash_map_name d = (case d of None \<Rightarrow> [] | Some xs \<Rightarrow> map (property ''name'') xs)"

text \<open>
  \<^verbatim>\<open>_.pick(o, ks)\<close>: the properties of \<open>o\<close> among \<open>ks\<close>, in the order of \<open>ks\<close>; empty when
  \<open>o\<close> is not an object.
\<close>

definition lodash_pick :: "js \<Rightarrow> string list \<Rightarrow> js" where
  "lodash_pick v ks =
     (case v of
        JObj kvs \<Rightarrow>
          JObj (concat (map (\<lambda>k. case map_of kvs k of None \<Rightarrow> [] | Some x \<Rightarrow> [(k, x)]) ks))
      | _ \<Rightarrow> JObj [])"

definition hex_digit :: "nat \<Rightarrow> char" where
  "hex_digit n = ''0123456789ABCDEF'' ! n"

definition percent :: "nat \<Rightarrow> string" where
  "percent b = [CHR ''%'', hex_digit (b div 16), hex_digit (b mod 16)]"

definition uri_unreserved :: "char \<Rightarrow> bool" where
  "uri_unreserved c =
     (is_idchar c \<or> (of_char c :: nat) \<in> {95, 46, 33, 126, 42, 39, 40, 41})"

text \<open>
  \<^verbatim>\<open>encodeURIComponent\<close>: letters, digits and \<^verbatim>\<open>-_.!~*'()\<close> stay; any other code unit
  is written as the percent-escapes of its UTF-8 bytes.
\<close>

definition encodeURIComponent :: "string \<Rightarrow> string" where
  "encodeURIComponent s =
     concat (map (\<lambda>c. if uri_unreserved c then [c]
                       else if (of_char c :: nat) < 128 then percent (of_char c)
                       else percent (192 + (of_char c :: nat) div 64)
                            @ percent (128 + (of_char c :: nat) mod 64)) s)"

text \<open>
  \<^verbatim>\<open>Promise.any\<close> on results listed in the order they settle: the first fulfilled one,
  or an aggregate of the failures.
\<close>

definition Promise_any :: "(error + 'a) list \<Rightarrow> error + 'a" where
  "Promise_any rs =
     (case filter (\<lambda>r. \<not> isl r) rs of
        [] \<Rightarrow> Inl (AggregateError (map projl rs))
      | r # _ \<Rightarrow> r)"

text \<open>\<^verbatim>\<open>s.includes(t)\<close> on strings: \<open>t\<close> occurs in \<open>s\<close>.\<close>

definition str_includes :: "string \<Rightarrow> string \<Rightarrow> bool" where
  "str_includes s t = list_ex (\<lambda>n. take (length t) (drop n s) = t) [0 ..< Suc (length s)]"


section \<open>PackageRequest.js\<close>

subsection \<open>The fetchers\<close>

definition metadata_gh :: "js list \<Rightarrow> js" where
  "metadata_gh versions = JObj [(''tags'', JArr []), (''versions'', JArr versions)]"

text \<open>
  \<^verbatim>\<open>loadMore\<close> in \<^verbatim>\<open>fetchGitHubMetadata\<close>: push the names of this page; when the page has
  data and a next page, fetch it and go on; otherwise return the metadata. The first
  argument is the array \<^verbatim>\<open>versions\<close> that the closure mutates.
\<close>

fun loadMore :: "js list \<Rightarrow> gh_response \<Rightarrow> world \<Rightarrow> (error + js) \<times> world" where
  "loadMore versions (LastPage d) w = (Inr (metadata_gh (versions @ lodash_map_name d)), w)"
| "loadMore versions (NextPage d nxt) w =
     (if d \<noteq> None
      then loadMore (versions @ lodash_map_name d) nxt (w\<lparr>calls := calls w @ [GetNextPage]\<rparr>)
      else (Inr (metadata_gh (versions @ lodash_map_name d)), w))"
| "loadMore versions (NextPageFails d err) w =
     (if d \<noteq> None
      then (Inl err, w\<lparr>calls := calls w @ [GetNextPage]\<rparr>)
      else (Inr (metadata_gh (versions @ lodash_map_name d)), w))"

definition fetchGitHubMetadata ::
  "env \<Rightarrow> string \<Rightarrow> string \<Rightarrow> world \<Rightarrow> (error + js) \<times> world" where
  "fetchGitHubMetadata e user repo w =
     (let w0 = w\<lparr>calls := calls w @ [GetTags user repo 100]\<rparr>;
          r = (case repos_getTags e user repo of
                 Inl err \<Rightarrow> (Inl err, w0)
               | Inr response \<Rightarrow> loadMore [] response w0)
      in case r of
           (Inl err, w1) \<Rightarrow>
             (Inl err,
              if error_code err = Some 403
              then w1\<lparr>logged := logged w1 @ [''GitHub API rate limit exceeded.'']\<rparr>
              else w1)
         | (Inr metadata, w1) \<Rightarrow> (Inr metadata, w1))"

definition npm_request :: "env \<Rightarrow> string \<Rightarrow> world \<Rightarrow> (error + response) \<times> world" where
  "npm_request e name w =
     (case npm_sourceUrl (v1Config e) of
        Inl sourceUrl \<Rightarrow> got_call e (sourceUrl @ ''/'' @ name) w
      | Inr sourceUrls \<Rightarrow>
          (Promise_any (map (\<lambda>sourceUrl. got e (sourceUrl @ ''/'' @ name))
                          (settle_order e sourceUrls)),
           w\<lparr>calls := calls w @ map (\<lambda>sourceUrl. Got (sourceUrl @ ''/'' @ name)) sourceUrls\<rparr>))"

text \<open>The first statement of \<^verbatim>\<open>fetchNpmMetadata\<close>, which reassigns \<^verbatim>\<open>name\<close>.\<close>

definition npm_name :: "string \<Rightarrow> string" where
  "npm_name name =
     (if take 1 name = ''@'' then ''@'' @ encodeURIComponent (drop 1 name)
      else encodeURIComponent name)"

definition fetchNpmMetadata :: "env \<Rightarrow> string \<Rightarrow> world \<Rightarrow> (error + js) \<times> world" where
  "fetchNpmMetadata e name0 w =
     (let name = npm_name name0
      in case npm_request e name w of
           (Inl err, w1) \<Rightarrow> (Inl err, w1)
         | (Inr response, w1) \<Rightarrow>
             if \<not> js_truthy (body response)
                \<or> \<not> js_truthy (property ''versions'' (body response))
             then (Inl (Error (''Unable to retrieve versions for package '' @ name @ ''.'')), w1)
             else (case sort_rcompare (Object_keys (property ''versions'' (body response))) of
                     Inl err \<Rightarrow> (Inl err, w1)
                   | Inr versions \<Rightarrow>
                       (Inr (JObj [(''tags'', property ''dist-tags'' (body response)),
                                   (''versions'', JArr (map JStr versions))]), w1)))"

subsection \<open>The class\<close>

definition keys_files :: "params \<Rightarrow> string" where
  "keys_files p =
     ''package/'' @ ptype p @ ''/'' @ pname p @ ''@'' @ tpl (pversion p) @ ''/files''"

definition keys_metadata :: "params \<Rightarrow> string" where
  "keys_metadata p = ''package/'' @ ptype p @ ''/'' @ pname p @ ''/metadata''"

definition files_url :: "env \<Rightarrow> params \<Rightarrow> string" where
  "files_url e p =
     cdn_sourceUrl (v1Config e) @ ''/'' @ ptype p @ ''/'' @ pname p @ ''@'' @ tpl (pversion p)
     @ ''/+json''"

definition fetchFiles :: "env \<Rightarrow> params \<Rightarrow> world \<Rightarrow> (error + js) \<times> world" where
  "fetchFiles e p w =
     (case got_call e (files_url e p) w of
        (Inr response, w1) \<Rightarrow> (Inr (lodash_pick (body response) [''default'', ''files'']), w1)
      | (Inl err, w1) \<Rightarrow>
          (case error_response err of
             None \<Rightarrow> (Inl TypeError, w1)
           | Some r \<Rightarrow>
               if statusCode r = Some 403
               then (Inr (JObj [(''status'', JNum 403), (''message'', body r)]), w1)
               else (Inl err, w1)))"

definition fetchMetadata :: "env \<Rightarrow> params \<Rightarrow> world \<Rightarrow> (error + js) \<times> world" where
  "fetchMetadata e p w =
     (if ptype p = ''npm'' then fetchNpmMetadata e (pname p) w
      else if ptype p = ''gh'' then fetchGitHubMetadata e (puser p) (prepo p) w
      else (Inl (Error (''Unknown package type '' @ ptype p @ ''.'')), w))"

definition getFilesAsJson :: "env \<Rightarrow> params \<Rightarrow> world \<Rightarrow> (error + json_text) \<times> world" where
  "getFilesAsJson e p w =
     (case redis_getAsync (keys_files p) w of
        Some files \<Rightarrow> (Inr files, w)
      | None \<Rightarrow>
          (case fetchFiles e p w of
             (Inl err, w1) \<Rightarrow> (Inl err, w1)
           | (Inr v, w1) \<Rightarrow>
               (Inr (JSON_stringify v), redis_setAsync (keys_files p) (JSON_stringify v) None w1)))"

definition getFiles :: "env \<Rightarrow> params \<Rightarrow> world \<Rightarrow> (error + js) \<times> world" where
  "getFiles e p w =
     (case getFilesAsJson e p w of
        (Inl err, w1) \<Rightarrow> (Inl err, w1)
      | (Inr files, w1) \<Rightarrow> (Inr (JSON_parse files), w1))"

definition getMetadataAsJson :: "env \<Rightarrow> params \<Rightarrow> world \<Rightarrow> (error + json_text) \<times> world" where
  "getMetadataAsJson e p w =
     (case redis_getAsync (keys_metadata p) w of
        Some metadata \<Rightarrow> (Inr metadata, w)
      | None \<Rightarrow>
          (case fetchMetadata e p w of
             (Inl err, w1) \<Rightarrow> (Inl err, w1)
           | (Inr v, w1) \<Rightarrow>
               (Inr (JSON_stringify v),
                redis_setAsync (keys_metadata p) (JSON_stringify v)
                  (Some (maxAge (v1Config e) (ptype p))) w1)))"

definition getMetadata :: "env \<Rightarrow> params \<Rightarrow> world \<Rightarrow> (error + js) \<times> world" where
  "getMetadata e p w =
     (case getMetadataAsJson e p w of
        (Inl err, w1) \<Rightarrow> (Inl err, w1)
      | (Inr metadata, w1) \<Rightarrow> (Inr (JSON_parse metadata), w1))"

text \<open>
  The filter at the head of the callback of \<^verbatim>\<open>getResolvedVersion\<close>:
  \<^verbatim>\<open>vs.filter(v => semver.valid(v) && !semver.prerelease(v))\<close>. Only strings are valid,
  so the filtered array is an array of strings.
\<close>

definition release_strings :: "js list \<Rightarrow> string list" where
  "release_strings vs =
     concat (map (\<lambda>v. case v of JStr s \<Rightarrow> [s] | _ \<Rightarrow> [])
                 (filter (\<lambda>v. valid v \<and> \<not> prerelease_of v) vs))"

text \<open>\<^verbatim>\<open>vs.filter(...).sort(semver.rcompare)\<close>\<close>

definition release_versions :: "js list \<Rightarrow> error + string list" where
  "release_versions vs = sort_rcompare (release_strings vs)"

text \<open>\<^verbatim>\<open>versions[0]\<close>\<close>

definition first_or_undefined :: "string list \<Rightarrow> js" where
  "first_or_undefined versions = (case versions of [] \<Rightarrow> JUndefined | v # _ \<Rightarrow> JStr v)"

text \<open>
  The callback of \<^verbatim>\<open>getResolvedVersion\<close>, applied to the parsed metadata and
  \<^verbatim>\<open>this.params.version\<close>. \<^verbatim>\<open>metadata.versions.filter\<close> throws unless
  \<^verbatim>\<open>metadata.versions\<close> is an array.
\<close>

definition resolve :: "range_parser \<Rightarrow> js \<Rightarrow> string option \<Rightarrow> error + js" where
  "resolve mkRange metadata version =
     (case js_get metadata ''versions'' of
        Inl err \<Rightarrow> Inl err
      | Inr (JArr vs) \<Rightarrow>
          (case release_versions vs of
             Inl err \<Rightarrow> Inl err
           | Inr versions \<Rightarrow>
               if js_of version \<in> set vs then Inr (js_of version)
               else (case hasOwnProperty (property ''tags'' metadata) (tpl version) of
                       Inl err \<Rightarrow> Inl err
                     | Inr True \<Rightarrow> js_get (property ''tags'' metadata) (tpl version)
                     | Inr False \<Rightarrow>
                         if version = Some ''latest'' \<or> version = None \<or> version = Some []
                         then Inr (first_or_undefined versions)
                         else Inr (maxSatisfying mkRange versions (tpl version))))
      | Inr _ \<Rightarrow> Inl TypeError)"

definition getResolvedVersion :: "env \<Rightarrow> params \<Rightarrow> world \<Rightarrow> (error + js) \<times> world" where
  "getResolvedVersion e p w =
     (case getMetadata e p w of
        (Inl err, w1) \<Rightarrow> (Inl err, w1)
      | (Inr metadata, w1) \<Rightarrow> (resolve (semver_Range e) metadata (pversion p), w1))"

definition responseNotFound :: "params \<Rightarrow> ctx \<Rightarrow> ctx" where
  "responseNotFound p c =
     c\<lparr>ctx_body := JObj [(''status'', JNum 404),
                         (''message'', JStr (''Couldn't find '' @ pname p @ ''@''
                                             @ tpl (pversion p) @ ''.''))]\<rparr>"

text \<open>
  A handler returns the context it has written, or the exception it lets through, and the
  world it leaves.
\<close>

definition handleResolveVersion ::
  "env \<Rightarrow> params \<Rightarrow> ctx \<Rightarrow> world \<Rightarrow> (error + ctx) \<times> world" where
  "handleResolveVersion e p c w =
     (case getResolvedVersion e p w of
        (Inr v, w1) \<Rightarrow> (Inr (c\<lparr>ctx_body := JObj [(''version'', v)]\<rparr>), w1)
      | (Inl err, w1) \<Rightarrow> (Inr (responseNotFound p c), w1))"

text \<open>\<^verbatim>\<open>metadata.versions.includes(this.params.version)\<close>\<close>

definition versions_includes :: "js \<Rightarrow> string option \<Rightarrow> error + bool" where
  "versions_includes metadata version =
     (case js_get metadata ''versions'' of
        Inl err \<Rightarrow> Inl err
      | Inr (JArr vs) \<Rightarrow> Inr (js_of version \<in> set vs)
      | Inr (JStr s) \<Rightarrow> Inr (str_includes s (tpl version))
      | Inr _ \<Rightarrow> Inl TypeError)"

definition handleVersionFiles ::
  "env \<Rightarrow> params \<Rightarrow> ctx \<Rightarrow> world \<Rightarrow> (error + ctx) \<times> world" where
  "handleVersionFiles e p c w =
     (case getMetadata e p w of
        (Inl err, w1) \<Rightarrow> (Inr (responseNotFound p c), w1)
      | (Inr metadata, w1) \<Rightarrow>
          (case versions_includes metadata (pversion p) of
             Inl err \<Rightarrow> (Inl err, w1)
           | Inr False \<Rightarrow>
               (Inr (c\<lparr>ctx_body := JObj [(''status'', JNum 404),
                     (''message'', JStr (''Couldn't find version '' @ tpl (pversion p) @ '' for ''
                        @ pname p @ ''. Make sure you use a specific version number, and not a version range or a tag.''))]\<rparr>),
                w1)
           | Inr True \<Rightarrow>
               (case getFiles e p w1 of
                  (Inr files, w2) \<Rightarrow>
                    (Inr (c\<lparr>ctx_body := files,
                            ctx_maxAge := Some (maxAgeStatic (v1Config e))\<rparr>), w2)
                | (Inl err, w2) \<Rightarrow>
                    if is_ParseError err
                    then (case error_response err of
                            None \<Rightarrow> (Inl TypeError, w2)
                          | Some r \<Rightarrow>
                              (Inr (c\<lparr>ctx_body := JObj [(''status'',
                                       JNum (case statusCode r of
                                               None \<Rightarrow> 502
                                             | Some n \<Rightarrow> if n = 0 then 502 else int n)),
                                     (''message'', body r)]\<rparr>), w2))
                    else (Inl err, w2))))"

section \<open>Concrete requests\<close>

text \<open>Configurations, upstream services and stores on which the theorems are run.\<close>

definition config0 :: config where
  "config0 =
     \<lparr>cdn_sourceUrl = ''https://cdn.jsdelivr.net'',
      npm_sourceUrl = Inl ''https://registry.npmjs.org'',
      maxAge = (\<lambda>t. 300),
      maxAgeStatic = 31536000\<rparr>"

text \<open>Every upstream call fails, the HTTP ones with the given error.\<close>

definition failing :: "error \<Rightarrow> env" where
  "failing err =
     \<lparr>v1Config = config0,
      got = (\<lambda>url. Inl err),
      settle_order = (\<lambda>urls. urls),
      repos_getTags = (\<lambda>user repo. Inl (GitHubError 404)),
      semver_Range = xrange\<rparr>"

definition offline :: env where
  "offline = failing (GotError RequestError None)"

text \<open>Every HTTP request is answered with status 200 and the given body.\<close>

definition answering :: "js \<Rightarrow> env" where
  "answering b = offline\<lparr>got := (\<lambda>url. Inr \<lparr>statusCode = Some 200, body = b\<rparr>)\<rparr>"

text \<open>The hosting API answers with the given tag listing.\<close>

definition hosting :: "gh_response \<Rightarrow> env" where
  "hosting listing = offline\<lparr>repos_getTags := (\<lambda>user repo. Inr listing)\<rparr>"

definition npm_package :: "string \<Rightarrow> string option \<Rightarrow> params" where
  "npm_package name version =
     \<lparr>ptype = ''npm'', pname = name, pversion = version, puser = [], prepo = []\<rparr>"

definition gh_package :: "string \<Rightarrow> string \<Rightarrow> string option \<Rightarrow> params" where
  "gh_package user repo version =
     \<lparr>ptype = ''gh'', pname = user @ ''/'' @ repo, pversion = version,
      puser = user, prepo = repo\<rparr>"

definition metadata_of :: "(string \<times> string) list \<Rightarrow> string list \<Rightarrow> js" where
  "metadata_of tags versions =
     JObj [(''tags'', JObj (map (\<lambda>(k, v). (k, JStr v)) tags)),
           (''versions'', JArr (map JStr versions))]"

definition empty_world :: world where
  "empty_world = \<lparr>redis = Map.empty, calls = [], logged = []\<rparr>"

text \<open>The store holds the metadata of the request, and nothing else.\<close>

definition cached :: "params \<Rightarrow> js \<Rightarrow> world" where
  "cached p metadata =
     empty_world\<lparr>redis := [keys_metadata p \<mapsto> (JSON_stringify metadata, Some 300)]\<rparr>"

definition ctx0 :: ctx where
  "ctx0 = \<lparr>ctx_body = JUndefined, ctx_maxAge = None\<rparr>"

text \<open>Metadata documents as they lie in the store.\<close>

definition left_pad_metadata :: js where
  "left_pad_metadata = metadata_of [(''latest'', ''2.0.0'')] [''1.0.0'', ''1.1.1'', ''2.0.0'']"



text \<open>The tag \<^verbatim>\<open>latest\<close> points to a version that \<^verbatim>\<open>versions\<close> does not list.\<close>

definition dangling_metadata :: js where
  "dangling_metadata = metadata_of [(''latest'', ''2.0.0'')] [''1.0.0'']"



text \<open>
  What \<^verbatim>\<open>fetchNpmMetadata\<close> stores when the registry sent no \<^verbatim>\<open>dist-tags\<close>: the
  \<^verbatim>\<open>undefined\<close> property is not written.
\<close>

definition untagged_metadata :: js where
  "untagged_metadata = JObj [(''versions'', JArr (map JStr [''1.0.0'', ''1.1.1'', ''2.0.0'']))]"



text \<open>Failures of the file listing, and the worlds they leave.\<close>

definition payload_403 :: js where
  "payload_403 =
     JObj [(''status'', JNum 403),
           (''message'', JStr ''Package size exceeded the configured limit of 50 MB.'')]"

definition forbidden :: error where
  "forbidden =
     GotError HTTPError
       (Some \<lparr>statusCode = Some 403,
              body = JStr ''Package size exceeded the configured limit of 50 MB.''\<rparr>)"

definition unparsable :: "nat option \<Rightarrow> error" where
  "unparsable status =
     GotError ParseError (Some \<lparr>statusCode = status, body = JStr ''<html>Bad gateway</html>''\<rparr>)"

definition world_403 :: world where
  "world_403 =
     \<lparr>redis = [''package/npm/left-pad@1.1.1/files'' \<mapsto> (Text payload_403, None)],
      calls = [Got ''https://cdn.jsdelivr.net/npm/left-pad@1.1.1/+json''],
      logged = []\<rparr>"

definition world_fetched :: "params \<Rightarrow> js \<Rightarrow> world" where
  "world_fetched p metadata =
     (cached p metadata)\<lparr>calls := [Got ''https://cdn.jsdelivr.net/npm/left-pad@1.1.1/+json'']\<rparr>"

text \<open>
  Tag listings. A listing is complete when every page has data and every next page can be
  fetched; \<open>listed\<close> is the sequence of its entries over all pages, \<open>next_pages\<close> the number
  of pages fetched after the first. \<open>tag name\<close> is an entry of the listing.
\<close>

fun complete :: "gh_response \<Rightarrow> bool" where
  "complete (LastPage d) = (d \<noteq> None)"
| "complete (NextPage d nxt) = (d \<noteq> None \<and> complete nxt)"
| "complete (NextPageFails d err) = False"

fun listed :: "gh_response \<Rightarrow> js list" where
  "listed (LastPage d) = (case d of None \<Rightarrow> [] | Some xs \<Rightarrow> xs)"
| "listed (NextPage d nxt) = (case d of None \<Rightarrow> [] | Some xs \<Rightarrow> xs) @ listed nxt"
| "listed (NextPageFails d err) = (case d of None \<Rightarrow> [] | Some xs \<Rightarrow> xs)"

fun next_pages :: "gh_response \<Rightarrow> nat" where
  "next_pages (LastPage d) = 0"
| "next_pages (NextPage d nxt) = Suc (next_pages nxt)"
| "next_pages (NextPageFails d err) = 1"

definition tag :: "string \<Rightarrow> js" where
  "tag name = JObj [(''name'', JStr name), (''commit'', JObj [(''sha'', JStr ''c0ffee'')])]"

section \<open>Semantic-version precedence is a total preorder\<close>

lemma compareMain_anti: "compareMain b a = - compareMain a b"
  by (auto simp: compareMain_def cmp_nat_def)

lemma compareMain_zero: "compareMain a b = 0 \<longleftrightarrow> major a = major b \<and> minor a = minor b \<and> patch a = patch b"
  by (auto simp: compareMain_def cmp_nat_def)

lemma compareMain_trans: "compareMain a b \<le> 0 \<Longrightarrow> compareMain b c \<le> 0 \<Longrightarrow> compareMain a c \<le> 0"
  by (auto simp: compareMain_def cmp_nat_def split: if_splits)

lemma compareMain_trans_strict: "compareMain a b \<le> 0 \<Longrightarrow> compareMain b c \<le> 0 \<Longrightarrow> compareMain a c = 0 \<Longrightarrow> compareMain a b = 0 \<and> compareMain b c = 0"
  by (auto simp: compareMain_def cmp_nat_def split: if_splits)

lemma compareIdentifiers_anti: "compareIdentifiers b a = - compareIdentifiers a b"
  by (cases a; cases b) (auto simp: cmp_nat_def)

lemma compareIdentifiers_zero: "compareIdentifiers a b = 0 \<longleftrightarrow> a = b"
  by (cases a; cases b) (auto simp: cmp_nat_def)

lemma cmp3_le: "(if (a::'a::linorder) < b then - 1 else if a > b then 1 else (0::int)) \<le> 0 \<longleftrightarrow> a \<le> b"
  by auto

lemma compareIdentifiers_le:
  "compareIdentifiers a b \<le> 0 \<longleftrightarrow>
     (case a of
        NumId x \<Rightarrow> (case b of NumId y \<Rightarrow> x \<le> y | StrId y \<Rightarrow> True)
      | StrId x \<Rightarrow> (case b of NumId y \<Rightarrow> False | StrId y \<Rightarrow> x \<le> y))"
proof (cases a)
  case (NumId x)
  then show ?thesis by (cases b) (auto simp: cmp_nat_def)
next
  case (StrId x)
  then show ?thesis by (cases b) (simp_all only: compareIdentifiers.simps ident.case cmp3_le, simp)
qed

lemma compareIdentifiers_trans: "compareIdentifiers a b \<le> 0 \<Longrightarrow> compareIdentifiers b c \<le> 0 \<Longrightarrow> compareIdentifiers a c \<le> 0"
proof -
  assume ab: "compareIdentifiers a b \<le> 0" and bc: "compareIdentifiers b c \<le> 0"
  show ?thesis
  proof (cases a)
    case a: (NumId x)
    show ?thesis
    proof (cases b)
      case b: (NumId y)
      show ?thesis
      proof (cases c)
        case (NumId z)
        with a b ab bc show ?thesis by (simp add: cmp_nat_def split: if_splits)
      next
        case (StrId z)
        with a show ?thesis by simp
      qed
    next
      case b: (StrId y)
      show ?thesis
      proof (cases c)
        case (NumId z)
        with b bc show ?thesis by simp
      next
        case (StrId z)
        with a show ?thesis by simp
      qed
    qed
  next
    case a: (StrId x)
    show ?thesis
    proof (cases b)
      case (NumId y)
      with a ab show ?thesis by simp
    next
      case b: (StrId y)
      show ?thesis
      proof (cases c)
        case (NumId z)
        with b bc show ?thesis by simp
      next
        case c: (StrId z)
        from ab a b have "x \<le> y" by (simp only: compareIdentifiers.simps cmp3_le)
        moreover from bc b c have "y \<le> z" by (simp only: compareIdentifiers.simps cmp3_le)
        ultimately have "x \<le> z" by (rule order_trans)
        with a c show ?thesis by (simp only: compareIdentifiers.simps cmp3_le)
      qed
    qed
  qed
qed

lemma comparePre_loop_anti: "comparePre_loop ys xs = - comparePre_loop xs ys"
proof (induction xs ys rule: comparePre_loop.induct)
  case (4 a as b bs)
  then show ?case using compareIdentifiers_anti[of b a] by auto
qed simp_all

lemma comparePre_loop_zero: "comparePre_loop xs ys = 0 \<longleftrightarrow> xs = ys"
  by (induction xs ys rule: comparePre_loop.induct) (auto simp: compareIdentifiers_zero)

lemma comparePre_loop_trans:
  "comparePre_loop xs ys \<le> 0 \<Longrightarrow> comparePre_loop ys zs \<le> 0 \<Longrightarrow> comparePre_loop xs zs \<le> 0"
proof (induction xs ys arbitrary: zs rule: comparePre_loop.induct)
  case 1 then show ?case by simp
next
  case (2 a as) then show ?case by simp
next
  case (3 b bs) then show ?case by (cases zs) auto
next
  case (4 a as b bs)
  show ?case
  proof (cases zs)
    case Nil with 4 show ?thesis by (auto split: if_splits)
  next
    case (Cons c cs)
    show ?thesis
    proof (cases "a = b")
      case True
      with 4 Cons show ?thesis by (auto split: if_splits)
    next
      case ab: False
      show ?thesis
      proof (cases "b = c")
        case True with 4 Cons ab show ?thesis by (auto split: if_splits)
      next
        case bc: False
        from 4 ab have 1: "compareIdentifiers a b \<le> 0" by simp
        from 4 Cons bc have 2: "compareIdentifiers b c \<le> 0" by simp
        from 1 2 have 3: "compareIdentifiers a c \<le> 0" by (rule compareIdentifiers_trans)
        have "a \<noteq> c"
        proof
          assume "a = c"
          with 2 have "compareIdentifiers b a \<le> 0" by simp
          with 1 have "compareIdentifiers a b = 0" using compareIdentifiers_anti[of a b] by simp
          with ab show False by (simp add: compareIdentifiers_zero)
        qed
        with 3 Cons show ?thesis by simp
      qed
    qed
  qed
qed

lemma comparePre_anti: "comparePre b a = - comparePre a b"
  using comparePre_loop_anti[of "prerelease b" "prerelease a"] by (auto simp: comparePre_def)

lemma comparePre_le:
  "comparePre a b \<le> 0 \<longleftrightarrow>
     (if prerelease a = [] then prerelease b = []
      else prerelease b = [] \<or> comparePre_loop (prerelease a) (prerelease b) \<le> 0)"
  by (simp add: comparePre_def)

lemma comparePre_trans:
  assumes "comparePre a b \<le> 0" "comparePre b c \<le> 0"
  shows "comparePre a c \<le> 0"
proof (cases "prerelease a = [] \<or> prerelease b = [] \<or> prerelease c = []")
  case True
  with assms show ?thesis by (auto simp: comparePre_le split: if_splits)
next
  case False
  with assms have "comparePre_loop (prerelease a) (prerelease b) \<le> 0"
    "comparePre_loop (prerelease b) (prerelease c) \<le> 0"
    by (simp_all add: comparePre_le)
  then have "comparePre_loop (prerelease a) (prerelease c) \<le> 0"
    by (rule comparePre_loop_trans)
  with False show ?thesis by (simp add: comparePre_le)
qed

lemma SemVer_compare_anti: "SemVer_compare b a = - SemVer_compare a b"
  using compareMain_anti[of b a] comparePre_anti[of b a] by (auto simp: SemVer_compare_def)

lemma SemVer_compare_trans:
  assumes "SemVer_compare a b \<le> 0" "SemVer_compare b c \<le> 0"
  shows "SemVer_compare a c \<le> 0"
proof -
  from assms have m1: "compareMain a b \<le> 0" and m2: "compareMain b c \<le> 0"
    by (auto simp: SemVer_compare_def split: if_splits)
  have m3: "compareMain a c \<le> 0" using m1 m2 by (rule compareMain_trans)
  show ?thesis
  proof (cases "compareMain a c = 0")
    case False with m3 show ?thesis by (simp add: SemVer_compare_def)
  next
    case True
    with m1 m2 have "compareMain a b = 0" "compareMain b c = 0"
      using compareMain_trans_strict by blast+
    with assms have "comparePre a b \<le> 0" "comparePre b c \<le> 0"
      by (auto simp: SemVer_compare_def)
    then have "comparePre a c \<le> 0" by (rule comparePre_trans)
    with True show ?thesis by (simp add: SemVer_compare_def)
  qed
qed

section \<open>Sorting by precedence\<close>


lemma mset_insort_by: "mset (insort_by cmp x ys) = add_mset x (mset ys)"
  by (induction ys) auto

lemma mset_sort_by: "mset (sort_by cmp xs) = mset xs"
  by (induction xs) (auto simp: sort_by_def mset_insort_by)

lemma set_insort_by: "set (insort_by cmp x ys) = insert x (set ys)"
  by (induction ys) auto

lemma set_sort_by: "set (sort_by cmp xs) = set xs"
  by (induction xs) (auto simp: sort_by_def set_insort_by)

lemma sorted_insort_by:
  assumes total: "\<And>a b. a \<in> S \<Longrightarrow> b \<in> S \<Longrightarrow> cmp a b \<le> 0 \<or> cmp b a \<le> 0"
    and trans: "\<And>a b c. a \<in> S \<Longrightarrow> b \<in> S \<Longrightarrow> c \<in> S \<Longrightarrow> cmp a b \<le> 0 \<Longrightarrow> cmp b c \<le> 0 \<Longrightarrow> cmp a c \<le> 0"
    and "x \<in> S" "set ys \<subseteq> S" "sorted_wrt (\<lambda>a b. cmp a b \<le> 0) ys"
  shows "sorted_wrt (\<lambda>a b. cmp a b \<le> 0) (insort_by cmp x ys)"
  using assms(3-)
proof (induction ys)
  case Nil
  then show ?case by simp
next
  case (Cons y ys)
  show ?case
  proof (cases "cmp x y \<le> 0")
    case True
    have "cmp x z \<le> 0" if "z \<in> set ys" for z
    proof -
      from Cons.prems that have "cmp y z \<le> 0" "z \<in> S" "y \<in> S" by auto
      with True Cons.prems(1) show ?thesis using trans by blast
    qed
    with True Cons.prems show ?thesis by auto
  next
    case False
    with total[of x y] Cons.prems have yx: "cmp y x \<le> 0" by auto
    from Cons have "sorted_wrt (\<lambda>a b. cmp a b \<le> 0) (insort_by cmp x ys)" by auto
    with False yx Cons.prems show ?thesis by (auto simp: set_insort_by)
  qed
qed

lemma sorted_sort_by:
  assumes total: "\<And>a b. a \<in> S \<Longrightarrow> b \<in> S \<Longrightarrow> cmp a b \<le> 0 \<or> cmp b a \<le> 0"
    and trans: "\<And>a b c. a \<in> S \<Longrightarrow> b \<in> S \<Longrightarrow> c \<in> S \<Longrightarrow> cmp a b \<le> 0 \<Longrightarrow> cmp b c \<le> 0 \<Longrightarrow> cmp a c \<le> 0"
    and "set xs \<subseteq> S"
  shows "sorted_wrt (\<lambda>a b. cmp a b \<le> 0) (sort_by cmp xs)"
  using assms(3)
proof (induction xs)
  case Nil
  then show ?case by (simp add: sort_by_def)
next
  case (Cons x xs)
  then have "sorted_wrt (\<lambda>a b. cmp a b \<le> 0) (sort_by cmp xs)" by simp
  moreover have "set (sort_by cmp xs) \<subseteq> S" using Cons.prems by (simp add: set_sort_by)
  moreover have "x \<in> S" using Cons.prems by simp
  ultimately have "sorted_wrt (\<lambda>a b. cmp a b \<le> 0) (insort_by cmp x (sort_by cmp xs))"
    using sorted_insort_by[of S cmp x "sort_by cmp xs"] total trans by blast
  then show ?case by (simp add: sort_by_def)
qed

lemma rcompare_int_ok:
  "SemVer_new a = Inr x \<Longrightarrow> SemVer_new b = Inr y \<Longrightarrow> rcompare_int a b = SemVer_compare y x"
  by (simp add: rcompare_int_def rcompare_def compare_def)

lemma gte_ok:
  "SemVer_new a = Inr x \<Longrightarrow> SemVer_new b = Inr y \<Longrightarrow> gte a b = Inr (SemVer_compare x y \<ge> 0)"
  by (simp add: gte_def compare_def)

lemma rcompare_int_gte:
  assumes "\<not> isl (SemVer_new a)" "\<not> isl (SemVer_new b)"
  shows "rcompare_int a b \<le> 0 \<longleftrightarrow> gte a b = Inr True"
proof -
  from assms obtain x y where xy: "SemVer_new a = Inr x" "SemVer_new b = Inr y"
    by (cases "SemVer_new a"; cases "SemVer_new b") auto
  then show ?thesis using SemVer_compare_anti[of x y]
    by (simp add: rcompare_int_ok gte_ok)
qed

lemma rcompare_int_total:
  assumes "\<not> isl (SemVer_new a)" "\<not> isl (SemVer_new b)"
  shows "rcompare_int a b \<le> 0 \<or> rcompare_int b a \<le> 0"
proof -
  from assms obtain x y where xy: "SemVer_new a = Inr x" "SemVer_new b = Inr y"
    by (cases "SemVer_new a"; cases "SemVer_new b") auto
  then show ?thesis using SemVer_compare_anti[of x y]
    by (simp add: rcompare_int_ok) linarith
qed

lemma rcompare_int_trans:
  assumes "\<not> isl (SemVer_new a)" "\<not> isl (SemVer_new b)" "\<not> isl (SemVer_new c)"
    and "rcompare_int a b \<le> 0" "rcompare_int b c \<le> 0"
  shows "rcompare_int a c \<le> 0"
proof -
  from assms obtain x y z where xy: "SemVer_new a = Inr x" "SemVer_new b = Inr y" "SemVer_new c = Inr z"
    by (cases "SemVer_new a"; cases "SemVer_new b"; cases "SemVer_new c") auto
  with assms(4,5) have "SemVer_compare z y \<le> 0" "SemVer_compare y x \<le> 0"
    by (simp_all add: rcompare_int_ok)
  then have "SemVer_compare z x \<le> 0" by (rule SemVer_compare_trans)
  with xy show ?thesis by (simp add: rcompare_int_ok)
qed

lemma sorted_wrt_mono_set:
  "sorted_wrt P xs \<Longrightarrow> (\<And>a b. a \<in> set xs \<Longrightarrow> b \<in> set xs \<Longrightarrow> P a b \<Longrightarrow> Q a b) \<Longrightarrow> sorted_wrt Q xs"
  by (induction xs) auto

lemma sort_rcompare_sorted:
  assumes "length xs \<le> 1 \<or> (\<forall>x \<in> set xs. \<not> isl (SemVer_new x))"
  shows "\<exists>ys. sort_rcompare xs = Inr ys \<and> mset ys = mset xs
            \<and> sorted_wrt (\<lambda>a b. gte a b = Inr True) ys"
proof (cases "length xs \<le> 1")
  case True
  then have "sorted_wrt (\<lambda>a b. gte a b = Inr True) xs"
    by (cases xs) (auto simp: Suc_le_eq)
  with True show ?thesis by (simp add: sort_rcompare_def)
next
  case False
  with assms have ok: "\<forall>x \<in> set xs. \<not> isl (SemVer_new x)" by simp
  let ?S = "{s. \<not> isl (SemVer_new s)}"
  have "sorted_wrt (\<lambda>a b. rcompare_int a b \<le> 0) (sort_by rcompare_int xs)"
  proof (rule sorted_sort_by[of ?S])
    show "set xs \<subseteq> ?S" using ok by auto
  next
    fix a b assume "a \<in> ?S" "b \<in> ?S"
    then show "rcompare_int a b \<le> 0 \<or> rcompare_int b a \<le> 0"
      using rcompare_int_total[of a b] by simp
  next
    fix a b c assume "a \<in> ?S" "b \<in> ?S" "c \<in> ?S" "rcompare_int a b \<le> 0" "rcompare_int b c \<le> 0"
    then show "rcompare_int a c \<le> 0"
      using rcompare_int_trans[of a b c] by simp
  qed
  then have "sorted_wrt (\<lambda>a b. gte a b = Inr True) (sort_by rcompare_int xs)"
    by (rule sorted_wrt_mono_set) (use ok in \<open>auto simp: set_sort_by rcompare_int_gte\<close>)
  moreover have "sort_rcompare xs = Inr (sort_by rcompare_int xs)"
    using False ok by (auto simp: sort_rcompare_def list_ex_iff)
  ultimately show ?thesis by (simp add: mset_sort_by)
qed

lemma sort_rcompare_throws:
  "length xs > 1 \<Longrightarrow> x \<in> set xs \<Longrightarrow> isl (SemVer_new x) \<Longrightarrow> sort_rcompare xs = Inl TypeError"
  by (auto simp: sort_rcompare_def list_ex_iff)

lemma valid_constructible: "valid (JStr s) \<Longrightarrow> \<not> isl (SemVer_new s)"
  by (auto simp: valid_def parse_def split: if_splits sum.splits)

lemma maxSatisfying_step_mem:
  "maxSatisfying_step test v acc = Some (m, sv) \<Longrightarrow> m = v \<or> acc = Some (m, sv)"
  by (auto simp: maxSatisfying_step_def split: sum.splits if_splits option.splits)

lemma fold_maxSatisfying_mem:
  "fold (maxSatisfying_step test) vs acc = Some (m, sv) \<Longrightarrow> m \<in> set vs \<or> acc = Some (m, sv)"
proof (induction vs arbitrary: acc)
  case Nil
  then show ?case by simp
next
  case (Cons v vs)
  then have "m \<in> set vs \<or> maxSatisfying_step test v acc = Some (m, sv)" by simp
  then show ?case using maxSatisfying_step_mem[of test v acc m sv] by auto
qed

lemma maxSatisfying_mem:
  "maxSatisfying R vs r = JNull \<or> (\<exists>m \<in> set vs. maxSatisfying R vs r = JStr m)"
  using fold_maxSatisfying_mem[of _ vs None]
  by (fastforce simp: maxSatisfying_def split: option.splits)

section \<open>The store is only written after a successful fetch\<close>

lemma keys_differ: "keys_metadata p \<noteq> keys_files p"
  by (simp add: keys_metadata_def keys_files_def)

lemma loadMore_redis: "loadMore vs r w = (res, w1) \<Longrightarrow> redis w1 = redis w"
  by (induction vs r w arbitrary: res w1 rule: loadMore.induct) (auto split: if_splits)

lemma fetchGitHubMetadata_redis: "fetchGitHubMetadata e u r w = (res, w1) \<Longrightarrow> redis w1 = redis w"
  by (auto simp: fetchGitHubMetadata_def Let_def split: sum.splits prod.splits if_splits dest: loadMore_redis)

lemma npm_request_redis: "npm_request e n w = (res, w1) \<Longrightarrow> redis w1 = redis w"
  by (auto simp: npm_request_def got_call_def split: sum.splits)

lemma fetchNpmMetadata_redis: "fetchNpmMetadata e n w = (res, w1) \<Longrightarrow> redis w1 = redis w"
  by (auto simp: fetchNpmMetadata_def Let_def split: sum.splits prod.splits if_splits dest: npm_request_redis)

lemma fetchMetadata_redis: "fetchMetadata e p w = (res, w1) \<Longrightarrow> redis w1 = redis w"
  by (auto simp: fetchMetadata_def split: if_splits dest: fetchNpmMetadata_redis fetchGitHubMetadata_redis)

text \<open>
  Claim C9. When the store has no metadata for the request and \<^verbatim>\<open>fetchMetadata\<close> fails
  (the registry answered without a versions collection, the package type is unknown, the
  upstream call failed), \<^verbatim>\<open>getMetadataAsJson\<close> fails with the same error and the store is
  what it was: nothing is written under the metadata key, so the failure is not cached.
\<close>

theorem getMetadataAsJson_failure_not_cached:
  "redis_getAsync (keys_metadata p) w = None \<Longrightarrow> fetchMetadata e p w = (Inl err, w1) \<Longrightarrow>
   getMetadataAsJson e p w = (Inl err, w1) \<and> redis w1 = redis w"
  by (simp add: getMetadataAsJson_def fetchMetadata_redis)

lemma npm_name_left_pad: "npm_name ''left-pad'' = ''left-pad''"
  by (simp add: npm_name_def encodeURIComponent_def uri_unreserved_def is_idchar_def is_digit_def)

lemma fetchMetadata_no_versions:
  "fetchMetadata (answering (JObj [(''error'', JStr ''Not found'')])) (npm_package ''left-pad'' None) empty_world
     = (Inl (Error ''Unable to retrieve versions for package left-pad.''),
        empty_world\<lparr>calls := [Got ''https://registry.npmjs.org/left-pad'']\<rparr>)"
  by (simp add: fetchMetadata_def npm_package_def fetchNpmMetadata_def npm_name_left_pad npm_request_def
      answering_def offline_def failing_def config0_def got_call_def empty_world_def property_def)

lemma fetchMetadata_unknown_type:
  "fetchMetadata offline ((npm_package ''left-pad'' None)\<lparr>ptype := ''bower''\<rparr>) empty_world
     = (Inl (Error ''Unknown package type bower.''), empty_world)"
  by (simp add: fetchMetadata_def npm_package_def)

theorem getMetadataAsJson_failure_not_cached_witness:
  "getMetadataAsJson (answering (JObj [(''error'', JStr ''Not found'')]))
       (npm_package ''left-pad'' None) empty_world
     = (Inl (Error ''Unable to retrieve versions for package left-pad.''),
        empty_world\<lparr>calls := [Got ''https://registry.npmjs.org/left-pad'']\<rparr>)
   \<and> redis (empty_world\<lparr>calls := [Got ''https://registry.npmjs.org/left-pad'']\<rparr>) = redis empty_world
   \<and> getMetadataAsJson offline ((npm_package ''left-pad'' None)\<lparr>ptype := ''bower''\<rparr>) empty_world
     = (Inl (Error ''Unknown package type bower.''), empty_world)"
proof -
  have miss: "redis_getAsync k empty_world = None" for k
    by (simp add: redis_getAsync_def empty_world_def)
  show ?thesis
    using getMetadataAsJson_failure_not_cached[OF miss fetchMetadata_no_versions]
      getMetadataAsJson_failure_not_cached[OF miss fetchMetadata_unknown_type]
    by blast
qed

section \<open>Files are served from the store\<close>

lemma fetchFiles_redis: "fetchFiles e p w = (res, w1) \<Longrightarrow> redis w1 = redis w"
  by (auto simp: fetchFiles_def got_call_def split: sum.splits option.splits if_splits)

lemma getFilesAsJson_hit:
  "redis w (keys_files p) = Some (files, ttl) \<Longrightarrow> getFilesAsJson e p w = (Inr files, w)"
  by (simp add: getFilesAsJson_def redis_getAsync_def)

lemma getFilesAsJson_miss:
  "redis w (keys_files p) = None \<Longrightarrow> fetchFiles e p w = (Inr v, w1) \<Longrightarrow>
   getFilesAsJson e p w = (Inr (JSON_stringify v), redis_setAsync (keys_files p) (JSON_stringify v) None w1)"
  by (simp add: getFilesAsJson_def redis_getAsync_def)

lemma fetchFiles_403:
  "got e (files_url e p) = Inl err \<Longrightarrow> error_response err = Some r \<Longrightarrow> statusCode r = Some 403 \<Longrightarrow>
   fetchFiles e p w = (Inr (JObj [(''status'', JNum 403), (''message'', body r)]),
                       w\<lparr>calls := calls w @ [Got (files_url e p)]\<rparr>)"
  by (simp add: fetchFiles_def got_call_def)

lemma fetchFiles_rethrow:
  "got e (files_url e p) = Inl err \<Longrightarrow> error_response err = Some r \<Longrightarrow> statusCode r \<noteq> Some 403 \<Longrightarrow>
   fetchFiles e p w = (Inl err, w\<lparr>calls := calls w @ [Got (files_url e p)]\<rparr>)"
  by (simp add: fetchFiles_def got_call_def)

text \<open>
  Claim C10. Once the store holds a text under the files key of a request, every
  \<^verbatim>\<open>getFilesAsJson\<close> returns that text and every \<^verbatim>\<open>getFiles\<close> its parsed document, and the
  world is left as it was: no upstream call, no write. The text that a miss stores is such
  an entry, written without expiry, whatever \<^verbatim>\<open>fetchFiles\<close> returned; that includes the
  \<^verbatim>\<open>{status: 403, message}\<close> value it makes of an upstream 403.
\<close>

theorem getFiles_served_from_store:
  "(redis w (keys_files p) = Some (files, ttl) \<longrightarrow>
      getFilesAsJson e p w = (Inr files, w) \<and> getFiles e p w = (Inr (JSON_parse files), w))
   \<and> (redis w (keys_files p) = None \<and> fetchFiles e p w = (Inr v, w1) \<longrightarrow>
        getFilesAsJson e p w
          = (Inr (JSON_stringify v), redis_setAsync (keys_files p) (JSON_stringify v) None w1)
        \<and> getFilesAsJson e' p (redis_setAsync (keys_files p) (JSON_stringify v) None w1)
          = (Inr (JSON_stringify v), redis_setAsync (keys_files p) (JSON_stringify v) None w1)
        \<and> getFiles e' p (redis_setAsync (keys_files p) (JSON_stringify v) None w1)
          = (Inr (json_norm v), redis_setAsync (keys_files p) (JSON_stringify v) None w1))"
proof (intro conjI impI)
  assume hit: "redis w (keys_files p) = Some (files, ttl)"
  then show "getFilesAsJson e p w = (Inr files, w)" by (rule getFilesAsJson_hit)
  then show "getFiles e p w = (Inr (JSON_parse files), w)" by (simp add: getFiles_def)
next
  assume miss: "redis w (keys_files p) = None \<and> fetchFiles e p w = (Inr v, w1)"
  let ?w2 = "redis_setAsync (keys_files p) (JSON_stringify v) None w1"
  have stored: "redis ?w2 (keys_files p) = Some (JSON_stringify v, None)"
    by (simp add: redis_setAsync_def)
  show "getFilesAsJson e p w = (Inr (JSON_stringify v), ?w2)"
    using miss by (simp add: getFilesAsJson_miss)
  show again: "getFilesAsJson e' p ?w2 = (Inr (JSON_stringify v), ?w2)"
    using stored by (rule getFilesAsJson_hit)
  then show "getFiles e' p ?w2 = (Inr (json_norm v), ?w2)"
    by (simp add: getFiles_def JSON_stringify_def)
qed

lemma fetchFiles_forbidden:
  "fetchFiles (failing forbidden) (npm_package ''left-pad'' (Some ''1.1.1'')) empty_world
   = (Inr payload_403,
      empty_world\<lparr>calls := [Got ''https://cdn.jsdelivr.net/npm/left-pad@1.1.1/+json'']\<rparr>)"
  by (simp add: fetchFiles_def got_call_def failing_def forbidden_def files_url_def config0_def
      npm_package_def tpl_def empty_world_def payload_403_def)

theorem getFiles_served_from_store_witness:
  "getFilesAsJson (failing forbidden) (npm_package ''left-pad'' (Some ''1.1.1'')) empty_world
     = (Inr (Text payload_403), world_403)
   \<and> getFilesAsJson offline (npm_package ''left-pad'' (Some ''1.1.1'')) world_403
     = (Inr (Text payload_403), world_403)
   \<and> getFiles offline (npm_package ''left-pad'' (Some ''1.1.1'')) world_403
     = (Inr payload_403, world_403)"
proof -
  let ?p = "npm_package ''left-pad'' (Some ''1.1.1'')"
  have miss: "redis empty_world (keys_files ?p) = None"
    by (simp add: empty_world_def)
  have norm: "JSON_stringify payload_403 = Text payload_403"
    by (simp add: JSON_stringify_def payload_403_def)
  have key: "keys_files ?p = ''package/npm/left-pad@1.1.1/files''"
    by (simp add: keys_files_def npm_package_def tpl_def)
  have w2: "redis_setAsync (keys_files ?p) (Text payload_403) None
              (empty_world\<lparr>calls := [Got ''https://cdn.jsdelivr.net/npm/left-pad@1.1.1/+json'']\<rparr>)
            = world_403"
    unfolding key by (simp add: redis_setAsync_def world_403_def empty_world_def)
  have hit: "redis world_403 (keys_files ?p) = Some (Text payload_403, None)"
    unfolding key by (simp add: world_403_def)
  from getFiles_served_from_store[of empty_world ?p _ _ "failing forbidden" payload_403
      "empty_world\<lparr>calls := [Got ''https://cdn.jsdelivr.net/npm/left-pad@1.1.1/+json'']\<rparr>" offline]
    miss fetchFiles_forbidden
  have "getFilesAsJson (failing forbidden) ?p empty_world
          = (Inr (JSON_stringify payload_403),
             redis_setAsync (keys_files ?p) (JSON_stringify payload_403) None
               (empty_world\<lparr>calls := [Got ''https://cdn.jsdelivr.net/npm/left-pad@1.1.1/+json'']\<rparr>))"
    by blast
  then have "getFilesAsJson (failing forbidden) ?p empty_world = (Inr (Text payload_403), world_403)"
    unfolding norm w2 .
  moreover from getFiles_served_from_store[of world_403 ?p "Text payload_403" None offline] hit
  have "getFilesAsJson offline ?p world_403 = (Inr (Text payload_403), world_403)"
    "getFiles offline ?p world_403 = (Inr payload_403, world_403)"
    by simp_all
  ultimately show ?thesis by simp
qed

section \<open>handleVersionFiles wants a listed version\<close>

lemma getMetadata_cached:
  "getMetadata e p (cached p m) = (Inr (json_norm m), cached p m)"
  by (simp add: getMetadata_def getMetadataAsJson_def redis_getAsync_def cached_def JSON_stringify_def)

lemma json_norm_metadata_of [simp]: "json_norm (metadata_of tags versions) = metadata_of tags versions"
  by (simp add: metadata_of_def comp_def case_prod_beta filter_id_conv)

lemma versions_metadata_of [simp]:
  "js_get (metadata_of tags versions) ''versions'' = Inr (JArr (map JStr versions))"
  by (simp add: metadata_of_def)

lemma tags_metadata_of [simp]:
  "property ''tags'' (metadata_of tags versions) = JObj (map (\<lambda>(k, v). (k, JStr v)) tags)"
  by (simp add: metadata_of_def property_def)

lemma messages_differ:
  "''Couldn't find version '' @ v @ '' for '' @ n @ ''. Make sure you use a specific version number, and not a version range or a tag.''
   \<noteq> ''Couldn't find '' @ n @ ''@'' @ v @ ''.''"
proof
  assume "''Couldn't find version '' @ v @ '' for '' @ n @ ''. Make sure you use a specific version number, and not a version range or a tag.''
   = ''Couldn't find '' @ n @ ''@'' @ v @ ''.''"
  then have "length (''Couldn't find version '' @ v @ '' for '' @ n @ ''. Make sure you use a specific version number, and not a version range or a tag.'')
   = length (''Couldn't find '' @ n @ ''@'' @ v @ ''.'')" by (rule arg_cong)
  then show False by simp
qed

text \<open>
  Claim C7. When the metadata of the request is available and its \<^verbatim>\<open>versions\<close> array does
  not contain the requested version as it is written (a tag name or a range is not
  resolved here), \<^verbatim>\<open>handleVersionFiles\<close> answers with status 404 and the message that asks
  for a specific version number, which is never the message of \<^verbatim>\<open>responseNotFound\<close>. The
  world is the one \<^verbatim>\<open>getMetadata\<close> left: the file listing is neither fetched nor stored,
  and when the metadata came from the store nothing has changed at all.
\<close>

theorem handleVersionFiles_unlisted_version:
  assumes "getMetadata e p w = (Inr metadata, w1)"
    and "js_get metadata ''versions'' = Inr (JArr vs)"
    and "js_of (pversion p) \<notin> set vs"
  shows "handleVersionFiles e p c w =
           (Inr (c\<lparr>ctx_body := JObj [(''status'', JNum 404),
                   (''message'', JStr (''Couldn't find version '' @ tpl (pversion p) @ '' for ''
                      @ pname p @ ''. Make sure you use a specific version number, and not a version range or a tag.''))]\<rparr>),
            w1)
         \<and> handleVersionFiles e p c w \<noteq> (Inr (responseNotFound p c), w1)
         \<and> (redis_getAsync (keys_metadata p) w \<noteq> None \<longrightarrow> w1 = w)"
proof -
  let ?c = "c\<lparr>ctx_body := JObj [(''status'', JNum 404),
                   (''message'', JStr (''Couldn't find version '' @ tpl (pversion p) @ '' for ''
                      @ pname p @ ''. Make sure you use a specific version number, and not a version range or a tag.''))]\<rparr>"
  have 1: "handleVersionFiles e p c w = (Inr ?c, w1)"
    using assms by (simp add: handleVersionFiles_def versions_includes_def)
  have "ctx_body ?c \<noteq> ctx_body (responseNotFound p c)"
    using messages_differ[of "tpl (pversion p)" "pname p"] by (simp add: responseNotFound_def)
  then have "?c \<noteq> responseNotFound p c"
    by (rule contrapos_nn) (rule arg_cong)
  then have 2: "handleVersionFiles e p c w \<noteq> (Inr (responseNotFound p c), w1)"
    unfolding 1 by simp
  have 3: "redis_getAsync (keys_metadata p) w \<noteq> None \<longrightarrow> w1 = w"
    using assms(1) by (auto simp: getMetadata_def getMetadataAsJson_def split: option.splits)
  from 1 2 3 show ?thesis by (intro conjI)
qed

theorem handleVersionFiles_unlisted_version_witness:
  "handleVersionFiles offline (npm_package ''left-pad'' (Some ''latest'')) ctx0
       (cached (npm_package ''left-pad'' (Some ''latest'')) left_pad_metadata)
     = (Inr (ctx0\<lparr>ctx_body := JObj [(''status'', JNum 404),
          (''message'', JStr ''Couldn't find version latest for left-pad. Make sure you use a specific version number, and not a version range or a tag.'')]\<rparr>),
        cached (npm_package ''left-pad'' (Some ''latest'')) left_pad_metadata)
   \<and> handleVersionFiles offline (npm_package ''left-pad'' (Some ''1.x'')) ctx0
       (cached (npm_package ''left-pad'' (Some ''1.x'')) left_pad_metadata)
     = (Inr (ctx0\<lparr>ctx_body := JObj [(''status'', JNum 404),
          (''message'', JStr ''Couldn't find version 1.x for left-pad. Make sure you use a specific version number, and not a version range or a tag.'')]\<rparr>),
        cached (npm_package ''left-pad'' (Some ''1.x'')) left_pad_metadata)"
proof -
  have m: "getMetadata offline p (cached p left_pad_metadata)
             = (Inr left_pad_metadata, cached p left_pad_metadata)" for p
    by (simp add: getMetadata_cached left_pad_metadata_def)
  have vs: "js_get left_pad_metadata ''versions'' = Inr (JArr (map JStr [''1.0.0'', ''1.1.1'', ''2.0.0'']))"
    by (simp add: left_pad_metadata_def)
  have a: "js_of (pversion (npm_package ''left-pad'' (Some ''latest''))) \<notin> set (map JStr [''1.0.0'', ''1.1.1'', ''2.0.0''])"
    by (simp add: js_of_def npm_package_def)
  have b: "js_of (pversion (npm_package ''left-pad'' (Some ''1.x''))) \<notin> set (map JStr [''1.0.0'', ''1.1.1'', ''2.0.0''])"
    by (simp add: js_of_def npm_package_def)
  show ?thesis
    using handleVersionFiles_unlisted_version[OF m vs a, of ctx0]
      handleVersionFiles_unlisted_version[OF m vs b, of ctx0]
    by (simp add: npm_package_def tpl_def)
qed

section \<open>Failures of the file listing\<close>

lemma versions_includes_listed:
  "js_get metadata ''versions'' = Inr (JArr vs) \<Longrightarrow> js_of v \<in> set vs \<Longrightarrow>
   versions_includes metadata v = Inr True"
  by (simp add: versions_includes_def)

lemma getFiles_miss_403:
  assumes "redis w (keys_files p) = None" "got e (files_url e p) = Inl err"
    "error_response err = Some r" "statusCode r = Some 403"
  shows "getFiles e p w =
           (Inr (json_norm (JObj [(''status'', JNum 403), (''message'', body r)])),
            redis_setAsync (keys_files p)
              (JSON_stringify (JObj [(''status'', JNum 403), (''message'', body r)])) None
              (w\<lparr>calls := calls w @ [Got (files_url e p)]\<rparr>))"
  using assms fetchFiles_403[of e p err r w]
  by (simp add: getFiles_def getFilesAsJson_def redis_getAsync_def JSON_stringify_def)

lemma getFiles_miss_rethrow:
  assumes "redis w (keys_files p) = None" "got e (files_url e p) = Inl err"
    "error_response err = Some r" "statusCode r \<noteq> Some 403"
  shows "getFiles e p w = (Inl err, w\<lparr>calls := calls w @ [Got (files_url e p)]\<rparr>)"
  using assms fetchFiles_rethrow[of e p err r w]
  by (simp add: getFiles_def getFilesAsJson_def redis_getAsync_def)

text \<open>
  Claim C8. The request is for a listed version and the store has no file listing, so the
  listing is fetched, and the fetch fails with an error that carries the upstream
  response. If the upstream status is 403, \<^verbatim>\<open>handleVersionFiles\<close> returns normally with the
  body \<^verbatim>\<open>{status: 403, message: <upstream body>}\<close> (the upstream body being a JSON
  document), which has also been stored without expiry. If the error is a ParseError with
  another status, the handler returns normally with the body
  \<^verbatim>\<open>{status, message: <upstream body>}\<close> whose status is the upstream status code, or 502
  when the response has none, and nothing is stored.
\<close>

theorem handleVersionFiles_upstream_failure:
  assumes "getMetadata e p w = (Inr metadata, w1)"
    and "js_get metadata ''versions'' = Inr (JArr vs)"
    and "js_of (pversion p) \<in> set vs"
    and "redis w1 (keys_files p) = None"
    and "got e (files_url e p) = Inl err"
    and "error_response err = Some r"
  shows "(statusCode r = Some 403 \<and> body r \<noteq> JUndefined \<and> json_norm (body r) = body r \<longrightarrow>
           handleVersionFiles e p c w =
             (Inr (c\<lparr>ctx_body := JObj [(''status'', JNum 403), (''message'', body r)],
                     ctx_maxAge := Some (maxAgeStatic (v1Config e))\<rparr>),
              redis_setAsync (keys_files p)
                (Text (JObj [(''status'', JNum 403), (''message'', body r)])) None
                (w1\<lparr>calls := calls w1 @ [Got (files_url e p)]\<rparr>)))
       \<and> (is_ParseError err \<and> statusCode r = Some n \<and> n \<noteq> 0 \<and> n \<noteq> 403 \<longrightarrow>
           handleVersionFiles e p c w =
             (Inr (c\<lparr>ctx_body := JObj [(''status'', JNum (int n)), (''message'', body r)]\<rparr>),
              w1\<lparr>calls := calls w1 @ [Got (files_url e p)]\<rparr>))
       \<and> (is_ParseError err \<and> statusCode r = None \<longrightarrow>
           handleVersionFiles e p c w =
             (Inr (c\<lparr>ctx_body := JObj [(''status'', JNum 502), (''message'', body r)]\<rparr>),
              w1\<lparr>calls := calls w1 @ [Got (files_url e p)]\<rparr>))"
proof (intro conjI impI)
  note inc = versions_includes_listed[OF assms(2,3)]
  {
    assume h: "statusCode r = Some 403 \<and> body r \<noteq> JUndefined \<and> json_norm (body r) = body r"
    then have "getFiles e p w1 =
           (Inr (JObj [(''status'', JNum 403), (''message'', body r)]),
            redis_setAsync (keys_files p)
              (Text (JObj [(''status'', JNum 403), (''message'', body r)])) None
              (w1\<lparr>calls := calls w1 @ [Got (files_url e p)]\<rparr>))"
      using getFiles_miss_403[OF assms(4,5,6)] by (simp add: JSON_stringify_def)
    then show "handleVersionFiles e p c w =
             (Inr (c\<lparr>ctx_body := JObj [(''status'', JNum 403), (''message'', body r)],
                     ctx_maxAge := Some (maxAgeStatic (v1Config e))\<rparr>),
              redis_setAsync (keys_files p)
                (Text (JObj [(''status'', JNum 403), (''message'', body r)])) None
                (w1\<lparr>calls := calls w1 @ [Got (files_url e p)]\<rparr>))"
      using assms(1) inc by (simp add: handleVersionFiles_def)
  }
  {
    assume h: "is_ParseError err \<and> statusCode r = Some n \<and> n \<noteq> 0 \<and> n \<noteq> 403"
    then have "getFiles e p w1 = (Inl err, w1\<lparr>calls := calls w1 @ [Got (files_url e p)]\<rparr>)"
      using getFiles_miss_rethrow[OF assms(4,5,6)] by simp
    then show "handleVersionFiles e p c w =
             (Inr (c\<lparr>ctx_body := JObj [(''status'', JNum (int n)), (''message'', body r)]\<rparr>),
              w1\<lparr>calls := calls w1 @ [Got (files_url e p)]\<rparr>)"
      using assms(1,6) inc h by (simp add: handleVersionFiles_def)
  }
  {
    assume h: "is_ParseError err \<and> statusCode r = None"
    then have "getFiles e p w1 = (Inl err, w1\<lparr>calls := calls w1 @ [Got (files_url e p)]\<rparr>)"
      using getFiles_miss_rethrow[OF assms(4,5,6)] by simp
    then show "handleVersionFiles e p c w =
             (Inr (c\<lparr>ctx_body := JObj [(''status'', JNum 502), (''message'', body r)]\<rparr>),
              w1\<lparr>calls := calls w1 @ [Got (files_url e p)]\<rparr>)"
      using assms(1,6) inc h by (simp add: handleVersionFiles_def)
  }
qed

theorem handleVersionFiles_upstream_failure_witness:
  "handleVersionFiles (failing forbidden) (npm_package ''left-pad'' (Some ''1.1.1'')) ctx0
       (cached (npm_package ''left-pad'' (Some ''1.1.1'')) left_pad_metadata)
     = (Inr (ctx0\<lparr>ctx_body := payload_403, ctx_maxAge := Some 31536000\<rparr>),
        redis_setAsync ''package/npm/left-pad@1.1.1/files'' (Text payload_403) None
          (world_fetched (npm_package ''left-pad'' (Some ''1.1.1'')) left_pad_metadata))
   \<and> handleVersionFiles (failing (unparsable (Some 200))) (npm_package ''left-pad'' (Some ''1.1.1'')) ctx0
       (cached (npm_package ''left-pad'' (Some ''1.1.1'')) left_pad_metadata)
     = (Inr (ctx0\<lparr>ctx_body := JObj [(''status'', JNum 200),
                                       (''message'', JStr ''<html>Bad gateway</html>'')]\<rparr>),
        world_fetched (npm_package ''left-pad'' (Some ''1.1.1'')) left_pad_metadata)
   \<and> handleVersionFiles (failing (unparsable None)) (npm_package ''left-pad'' (Some ''1.1.1'')) ctx0
       (cached (npm_package ''left-pad'' (Some ''1.1.1'')) left_pad_metadata)
     = (Inr (ctx0\<lparr>ctx_body := JObj [(''status'', JNum 502),
                                       (''message'', JStr ''<html>Bad gateway</html>'')]\<rparr>),
        world_fetched (npm_package ''left-pad'' (Some ''1.1.1'')) left_pad_metadata)"
proof -
  let ?p = "npm_package ''left-pad'' (Some ''1.1.1'')"
  let ?w = "cached ?p left_pad_metadata"
  have m: "getMetadata e ?p ?w = (Inr left_pad_metadata, ?w)" for e
    by (simp add: getMetadata_cached left_pad_metadata_def)
  have vs: "js_get left_pad_metadata ''versions'' = Inr (JArr (map JStr [''1.0.0'', ''1.1.1'', ''2.0.0'']))"
    by (simp add: left_pad_metadata_def)
  have a: "js_of (pversion ?p) \<in> set (map JStr [''1.0.0'', ''1.1.1'', ''2.0.0''])"
    by (simp add: js_of_def npm_package_def)
  have key: "keys_files ?p = ''package/npm/left-pad@1.1.1/files''"
    by (simp add: keys_files_def npm_package_def tpl_def)
  have miss: "redis ?w (keys_files ?p) = None"
    unfolding key by (simp add: cached_def empty_world_def keys_metadata_def npm_package_def)
  have url: "files_url (failing err) ?p = ''https://cdn.jsdelivr.net/npm/left-pad@1.1.1/+json''" for err
    by (simp add: files_url_def failing_def config0_def npm_package_def tpl_def)
  have g: "got (failing err) (files_url (failing err) ?p) = Inl err" for err
    by (simp add: failing_def)
  have w': "?w\<lparr>calls := calls ?w @ [Got ''https://cdn.jsdelivr.net/npm/left-pad@1.1.1/+json'']\<rparr>
            = world_fetched ?p left_pad_metadata"
    by (simp add: world_fetched_def cached_def empty_world_def)
  have r1: "error_response forbidden = Some \<lparr>statusCode = Some 403, body = JStr ''Package size exceeded the configured limit of 50 MB.''\<rparr>"
    by (simp add: forbidden_def)
  have r2: "error_response (unparsable s) = Some \<lparr>statusCode = s, body = JStr ''<html>Bad gateway</html>''\<rparr>" for s
    by (simp add: unparsable_def)
  have 1: "handleVersionFiles (failing forbidden) ?p ctx0 ?w
     = (Inr (ctx0\<lparr>ctx_body := payload_403, ctx_maxAge := Some 31536000\<rparr>),
        redis_setAsync ''package/npm/left-pad@1.1.1/files'' (Text payload_403) None
          (world_fetched ?p left_pad_metadata))"
    using handleVersionFiles_upstream_failure[OF m vs a miss g r1, where c = ctx0]
    unfolding url key w' by (simp add: payload_403_def failing_def config0_def)
  have 2: "handleVersionFiles (failing (unparsable (Some 200))) ?p ctx0 ?w
     = (Inr (ctx0\<lparr>ctx_body := JObj [(''status'', JNum 200),
                                       (''message'', JStr ''<html>Bad gateway</html>'')]\<rparr>),
        world_fetched ?p left_pad_metadata)"
    using handleVersionFiles_upstream_failure[OF m vs a miss g r2, where c = ctx0 and n = 200]
    unfolding url key w' by (simp add: unparsable_def)
  have 3: "handleVersionFiles (failing (unparsable None)) ?p ctx0 ?w
     = (Inr (ctx0\<lparr>ctx_body := JObj [(''status'', JNum 502),
                                       (''message'', JStr ''<html>Bad gateway</html>'')]\<rparr>),
        world_fetched ?p left_pad_metadata)"
    using handleVersionFiles_upstream_failure[OF m vs a miss g r2, where c = ctx0]
    unfolding url key w' by (simp add: unparsable_def)
  from 1 2 3 show ?thesis by (intro conjI)
qed

section \<open>The callback of getResolvedVersion\<close>

lemma valid_is_string: "valid v \<Longrightarrow> \<exists>s. v = JStr s"
  by (cases v) (auto simp: valid_def parse_def)

lemma set_release_strings:
  "set (release_strings vs) = {s. JStr s \<in> set vs \<and> valid (JStr s) \<and> \<not> prerelease_of (JStr s)}"
proof (induction vs)
  case Nil
  then show ?case by (simp add: release_strings_def)
next
  case (Cons v vs)
  show ?case
  proof (cases "valid v \<and> \<not> prerelease_of v")
    case True
    then obtain s where "v = JStr s" using valid_is_string by blast
    with True Cons show ?thesis by (auto simp: release_strings_def)
  next
    case False
    with Cons show ?thesis by (auto simp: release_strings_def)
  qed
qed

lemma release_versions_sorted:
  "\<exists>versions. release_versions vs = Inr versions
     \<and> set versions = {s. JStr s \<in> set vs \<and> valid (JStr s) \<and> \<not> prerelease_of (JStr s)}
     \<and> sorted_wrt (\<lambda>a b. gte a b = Inr True) versions"
proof -
  have "\<forall>x \<in> set (release_strings vs). \<not> isl (SemVer_new x)"
    by (auto simp: set_release_strings dest: valid_constructible)
  then obtain ys where ys: "sort_rcompare (release_strings vs) = Inr ys"
    "mset ys = mset (release_strings vs)" "sorted_wrt (\<lambda>a b. gte a b = Inr True) ys"
    using sort_rcompare_sorted[of "release_strings vs"] by blast
  from ys(2) have "set ys = set (release_strings vs)" by (rule mset_eq_setD)
  with ys show ?thesis
    by (simp add: release_versions_def set_release_strings)
qed


lemma resolve_exact:
  "js_get metadata ''versions'' = Inr (JArr vs) \<Longrightarrow> js_of version \<in> set vs \<Longrightarrow>
   resolve R metadata version = Inr (js_of version)"
  using release_versions_sorted[of vs] by (auto simp: resolve_def)

lemma resolve_tag:
  "js_get metadata ''versions'' = Inr (JArr vs) \<Longrightarrow> js_of version \<notin> set vs \<Longrightarrow>
   hasOwnProperty (property ''tags'' metadata) (tpl version) = Inr True \<Longrightarrow>
   resolve R metadata version = js_get (property ''tags'' metadata) (tpl version)"
  using release_versions_sorted[of vs] by (auto simp: resolve_def)

lemma resolve_fallback:
  "js_get metadata ''versions'' = Inr (JArr vs) \<Longrightarrow> js_of version \<notin> set vs \<Longrightarrow>
   hasOwnProperty (property ''tags'' metadata) (tpl version) = Inr False \<Longrightarrow>
   release_versions vs = Inr versions \<Longrightarrow>
   resolve R metadata version =
     Inr (if version = Some ''latest'' \<or> version = None \<or> version = Some []
          then first_or_undefined versions
          else maxSatisfying R versions (tpl version))"
  by (auto simp: resolve_def)

lemma resolve_tag_throws:
  "js_get metadata ''versions'' = Inr (JArr vs) \<Longrightarrow> js_of version \<notin> set vs \<Longrightarrow>
   hasOwnProperty (property ''tags'' metadata) (tpl version) = Inl err \<Longrightarrow>
   resolve R metadata version = Inl err"
  using release_versions_sorted[of vs] by (auto simp: resolve_def)


lemma getResolvedVersion_resolve:
  "getMetadata e p w = (Inr metadata, w1) \<Longrightarrow>
   getResolvedVersion e p w = (resolve (semver_Range e) metadata (pversion p), w1)"
  by (simp add: getResolvedVersion_def)

section \<open>The order of the resolution rules\<close>



section \<open>Resolved versions and the versions array\<close>

lemma maxSatisfying_member:
  "maxSatisfying R versions r = JStr v \<Longrightarrow> v \<in> set versions"
  using maxSatisfying_mem[of R versions r] by auto

lemma first_or_undefined_member:
  "first_or_undefined versions = JStr v \<Longrightarrow> v \<in> set versions"
  by (cases versions) (auto simp: first_or_undefined_def)

lemma resolve_member:
  assumes vs: "js_get metadata ''versions'' = Inr (JArr vs)"
    and res: "resolve R metadata version = Inr (JStr v)"
    and tag: "js_of version \<notin> set vs \<longrightarrow>
              hasOwnProperty (property ''tags'' metadata) (tpl version) = Inr True \<longrightarrow>
              js_get (property ''tags'' metadata) (tpl version) \<in> Inr ` set vs"
  shows "JStr v \<in> set vs"
proof (cases "js_of version \<in> set vs")
  case True
  with res resolve_exact[OF vs True, of R] show ?thesis by simp
next
  case False
  obtain versions where rel: "release_versions vs = Inr versions"
    "set versions = {s. JStr s \<in> set vs \<and> valid (JStr s) \<and> \<not> prerelease_of (JStr s)}"
    using release_versions_sorted[of vs] by blast
  show ?thesis
  proof (cases "hasOwnProperty (property ''tags'' metadata) (tpl version)")
    case (Inl err)
    with res resolve_tag_throws[OF vs False Inl, of R] show ?thesis by simp
  next
    case (Inr b)
    show ?thesis
    proof (cases b)
      case True
      with Inr res resolve_tag[OF vs False, of R] tag False show ?thesis by auto
    next
      case b: False
      from res resolve_fallback[OF vs False _ rel(1), of R] Inr b
      have "first_or_undefined versions = JStr v \<or> maxSatisfying R versions (tpl version) = JStr v"
        by (auto split: if_splits)
      then have "v \<in> set versions"
        using first_or_undefined_member maxSatisfying_member by blast
      with rel(2) show ?thesis by simp
    qed
  qed
qed

text \<open>
  Claim C3, amended. When \<^verbatim>\<open>getResolvedVersion\<close> returns a version string, that string is
  an element of the \<^verbatim>\<open>versions\<close> array of the metadata, provided that the value of the tag
  is an element of it in case the specifier is resolved as a tag. The tag branch returns
  the value of the tag without looking it up in \<^verbatim>\<open>versions\<close>.
\<close>

theorem getResolvedVersion_member:
  assumes "getMetadata e p w = (Inr metadata, w1)"
    and "js_get metadata ''versions'' = Inr (JArr vs)"
    and "getResolvedVersion e p w = (Inr (JStr v), w2)"
    and "js_of (pversion p) \<notin> set vs \<longrightarrow>
         hasOwnProperty (property ''tags'' metadata) (tpl (pversion p)) = Inr True \<longrightarrow>
         js_get (property ''tags'' metadata) (tpl (pversion p)) \<in> Inr ` set vs"
  shows "JStr v \<in> set vs"
proof -
  from assms(1,3) have "resolve (semver_Range e) metadata (pversion p) = Inr (JStr v)"
    by (simp add: getResolvedVersion_resolve)
  then show ?thesis by (rule resolve_member[OF assms(2) _ assms(4)])
qed

lemma getMetadata_left_pad:
  "getMetadata e p (cached p left_pad_metadata) = (Inr left_pad_metadata, cached p left_pad_metadata)"
  by (simp add: getMetadata_cached left_pad_metadata_def)

lemma versions_left_pad:
  "js_get left_pad_metadata ''versions'' = Inr (JArr (map JStr [''1.0.0'', ''1.1.1'', ''2.0.0'']))"
  by (simp add: left_pad_metadata_def)

lemma tags_left_pad: "property ''tags'' left_pad_metadata = JObj [(''latest'', JStr ''2.0.0'')]"
  by (simp add: left_pad_metadata_def)

lemma getResolvedVersion_cached:
  "getResolvedVersion e p (cached p (metadata_of tags versions))
     = (resolve (semver_Range e) (metadata_of tags versions) (pversion p),
        cached p (metadata_of tags versions))"
  by (simp add: getResolvedVersion_def getMetadata_cached)

lemma resolve_left_pad_latest:
  "resolve xrange left_pad_metadata (Some ''latest'') = Inr (JStr ''2.0.0'')"
  by code_simp

lemma resolve_left_pad_1x:
  "resolve xrange left_pad_metadata (Some ''1.x'') = Inr (JStr ''1.1.1'')"
  by code_simp

lemma resolve_left_pad_9x:
  "resolve xrange left_pad_metadata (Some ''9.x'') = Inr JNull"
  by code_simp

lemma resolve_dangling:
  "resolve xrange dangling_metadata (Some ''latest'') = Inr (JStr ''2.0.0'')"
  by code_simp

theorem getResolvedVersion_member_witness:
  "getResolvedVersion offline (npm_package ''left-pad'' (Some ''latest''))
       (cached (npm_package ''left-pad'' (Some ''latest'')) left_pad_metadata)
     = (Inr (JStr ''2.0.0''), cached (npm_package ''left-pad'' (Some ''latest'')) left_pad_metadata)
   \<and> JStr ''2.0.0'' \<in> set (map JStr [''1.0.0'', ''1.1.1'', ''2.0.0''])
   \<and> getResolvedVersion offline (npm_package ''left-pad'' (Some ''1.x''))
       (cached (npm_package ''left-pad'' (Some ''1.x'')) left_pad_metadata)
     = (Inr (JStr ''1.1.1''), cached (npm_package ''left-pad'' (Some ''1.x'')) left_pad_metadata)
   \<and> JStr ''1.1.1'' \<in> set (map JStr [''1.0.0'', ''1.1.1'', ''2.0.0''])"
proof -
  let ?p = "npm_package ''left-pad'' (Some ''latest'')"
  let ?q = "npm_package ''left-pad'' (Some ''1.x'')"
  have r1: "getResolvedVersion offline ?p (cached ?p left_pad_metadata)
             = (Inr (JStr ''2.0.0''), cached ?p left_pad_metadata)"
    using resolve_left_pad_latest
    by (simp add: getResolvedVersion_def getMetadata_left_pad offline_def failing_def npm_package_def)
  have r2: "getResolvedVersion offline ?q (cached ?q left_pad_metadata)
             = (Inr (JStr ''1.1.1''), cached ?q left_pad_metadata)"
    using resolve_left_pad_1x
    by (simp add: getResolvedVersion_def getMetadata_left_pad offline_def failing_def npm_package_def)
  have t1: "js_of (pversion ?p) \<notin> set (map JStr [''1.0.0'', ''1.1.1'', ''2.0.0'']) \<longrightarrow>
         hasOwnProperty (property ''tags'' left_pad_metadata) (tpl (pversion ?p)) = Inr True \<longrightarrow>
         js_get (property ''tags'' left_pad_metadata) (tpl (pversion ?p))
           \<in> Inr ` set (map JStr [''1.0.0'', ''1.1.1'', ''2.0.0''])"
    by (simp add: tags_left_pad npm_package_def tpl_def)
  have t2: "js_of (pversion ?q) \<notin> set (map JStr [''1.0.0'', ''1.1.1'', ''2.0.0'']) \<longrightarrow>
         hasOwnProperty (property ''tags'' left_pad_metadata) (tpl (pversion ?q)) = Inr True \<longrightarrow>
         js_get (property ''tags'' left_pad_metadata) (tpl (pversion ?q))
           \<in> Inr ` set (map JStr [''1.0.0'', ''1.1.1'', ''2.0.0''])"
    by (simp add: tags_left_pad npm_package_def tpl_def)
  show ?thesis
    using getResolvedVersion_member[OF getMetadata_left_pad versions_left_pad r1 t1]
      getResolvedVersion_member[OF getMetadata_left_pad versions_left_pad r2 t2] r1 r2
    by (intro conjI)
qed

text \<open>
  The claim as written fails on a tag that points outside \<^verbatim>\<open>versions\<close>: with versions
  \<^verbatim>\<open>["1.0.0"]\<close> and tags \<^verbatim>\<open>{latest: "2.0.0"}\<close> the specifier \<^verbatim>\<open>latest\<close> resolves to
  \<^verbatim>\<open>2.0.0\<close>.
\<close>

theorem getResolvedVersion_dangling_tag:
  "getResolvedVersion offline (npm_package ''left-pad'' (Some ''latest''))
       (cached (npm_package ''left-pad'' (Some ''latest'')) dangling_metadata)
     = (Inr (JStr ''2.0.0''), cached (npm_package ''left-pad'' (Some ''latest'')) dangling_metadata)
   \<and> js_get dangling_metadata ''versions'' = Inr (JArr [JStr ''1.0.0''])
   \<and> JStr ''2.0.0'' \<notin> set [JStr ''1.0.0'']"
  using resolve_dangling
  by (simp add: dangling_metadata_def getResolvedVersion_cached offline_def failing_def npm_package_def)

section \<open>The latest release\<close>

lemma sorted_wrt_head:
  "sorted_wrt P (x # xs) \<Longrightarrow> y \<in> set xs \<Longrightarrow> P x y"
  by simp










section \<open>handleResolveVersion\<close>

lemma getMetadata_miss_fails:
  "redis_getAsync (keys_metadata p) w = None \<Longrightarrow> fetchMetadata e p w = (Inl err, w1) \<Longrightarrow>
   getMetadata e p w = (Inl err, w1)"
  by (simp add: getMetadata_def getMetadataAsJson_def)

text \<open>
  Claim C1, amended. \<^verbatim>\<open>handleResolveVersion\<close> never raises. When the metadata cannot be
  fetched, or when the resolution throws (the metadata has no usable \<^verbatim>\<open>versions\<close> or
  \<^verbatim>\<open>tags\<close>), the body is \<^verbatim>\<open>{status: 404, message: "Couldn't find <name>@<specifier>."}\<close>.
  When the resolution returns a value, the body is \<^verbatim>\<open>{version: <value>}\<close>; a range that no
  release version satisfies is such a case, with the value \<^verbatim>\<open>null\<close>, and is not answered
  with the 404 payload.
\<close>

theorem handleResolveVersion_outcomes:
  "(\<exists>c' w'. handleResolveVersion e p c w = (Inr c', w'))
   \<and> (redis_getAsync (keys_metadata p) w = None \<and> fetchMetadata e p w = (Inl err, w1) \<longrightarrow>
        handleResolveVersion e p c w = (Inr (responseNotFound p c), w1))
   \<and> (getMetadata e p w = (Inr metadata, w1)
        \<and> resolve (semver_Range e) metadata (pversion p) = Inl err \<longrightarrow>
        handleResolveVersion e p c w = (Inr (responseNotFound p c), w1))
   \<and> (getMetadata e p w = (Inr metadata, w1)
        \<and> resolve (semver_Range e) metadata (pversion p) = Inr v \<longrightarrow>
        handleResolveVersion e p c w = (Inr (c\<lparr>ctx_body := JObj [(''version'', v)]\<rparr>), w1))
   \<and> (getMetadata e p w = (Inr metadata, w1)
        \<and> js_get metadata ''versions'' = Inr (JArr vs)
        \<and> js_of (pversion p) \<notin> set vs
        \<and> hasOwnProperty (property ''tags'' metadata) (tpl (pversion p)) = Inr False
        \<and> pversion p = Some r \<and> r \<noteq> ''latest'' \<and> r \<noteq> []
        \<and> release_versions vs = Inr versions
        \<and> maxSatisfying (semver_Range e) versions r = JNull \<longrightarrow>
        handleResolveVersion e p c w = (Inr (c\<lparr>ctx_body := JObj [(''version'', JNull)]\<rparr>), w1))"
proof (intro conjI impI)
  show "\<exists>c' w'. handleResolveVersion e p c w = (Inr c', w')"
    by (cases "getResolvedVersion e p w") (auto simp: handleResolveVersion_def split: sum.splits)
  show "handleResolveVersion e p c w = (Inr (responseNotFound p c), w1)"
    if "redis_getAsync (keys_metadata p) w = None \<and> fetchMetadata e p w = (Inl err, w1)"
    using that getMetadata_miss_fails[of p w e err w1]
    by (simp add: handleResolveVersion_def getResolvedVersion_def)
  show "handleResolveVersion e p c w = (Inr (responseNotFound p c), w1)"
    if "getMetadata e p w = (Inr metadata, w1)
        \<and> resolve (semver_Range e) metadata (pversion p) = Inl err"
    using that by (simp add: handleResolveVersion_def getResolvedVersion_def)
  show "handleResolveVersion e p c w = (Inr (c\<lparr>ctx_body := JObj [(''version'', v)]\<rparr>), w1)"
    if "getMetadata e p w = (Inr metadata, w1)
        \<and> resolve (semver_Range e) metadata (pversion p) = Inr v"
    using that by (simp add: handleResolveVersion_def getResolvedVersion_def)
  show "handleResolveVersion e p c w = (Inr (c\<lparr>ctx_body := JObj [(''version'', JNull)]\<rparr>), w1)"
    if h: "getMetadata e p w = (Inr metadata, w1)
        \<and> js_get metadata ''versions'' = Inr (JArr vs)
        \<and> js_of (pversion p) \<notin> set vs
        \<and> hasOwnProperty (property ''tags'' metadata) (tpl (pversion p)) = Inr False
        \<and> pversion p = Some r \<and> r \<noteq> ''latest'' \<and> r \<noteq> []
        \<and> release_versions vs = Inr versions
        \<and> maxSatisfying (semver_Range e) versions r = JNull"
  proof -
    from h have a: "js_get metadata ''versions'' = Inr (JArr vs)"
      and b: "js_of (pversion p) \<notin> set vs"
      and c: "hasOwnProperty (property ''tags'' metadata) (tpl (pversion p)) = Inr False"
      and d: "release_versions vs = Inr versions"
      by blast+
    from h have "resolve (semver_Range e) metadata (pversion p) = Inr JNull"
      using resolve_fallback[OF a b c d, of "semver_Range e"] by (simp add: tpl_def)
    with h show ?thesis by (simp add: handleResolveVersion_def getResolvedVersion_def)
  qed
qed

lemma fetchMetadata_offline:
  "fetchMetadata offline (npm_package ''left-pad'' v) empty_world
     = (Inl (GotError RequestError None),
        empty_world\<lparr>calls := [Got ''https://registry.npmjs.org/left-pad'']\<rparr>)"
  by (simp add: fetchMetadata_def npm_package_def fetchNpmMetadata_def npm_name_left_pad npm_request_def
      offline_def failing_def config0_def got_call_def empty_world_def)

lemma resolve_untagged:
  "resolve xrange untagged_metadata (Some ''9.x'') = Inl TypeError"
  by code_simp

lemma getMetadata_untagged:
  "getMetadata e p (cached p untagged_metadata) = (Inr untagged_metadata, cached p untagged_metadata)"
  by (simp add: getMetadata_cached untagged_metadata_def comp_def)

lemma release_versions_left_pad:
  "release_versions (map JStr [''1.0.0'', ''1.1.1'', ''2.0.0'']) = Inr [''2.0.0'', ''1.1.1'', ''1.0.0'']"
  by code_simp

lemma maxSatisfying_9x: "maxSatisfying xrange [''2.0.0'', ''1.1.1'', ''1.0.0''] ''9.x'' = JNull"
  by code_simp

lemma semver_Range_offline: "semver_Range offline = xrange"
  by (simp add: offline_def failing_def)

theorem handleResolveVersion_outcomes_witness:
  "handleResolveVersion offline (npm_package ''left-pad'' (Some ''9.x'')) ctx0 empty_world
     = (Inr (ctx0\<lparr>ctx_body := JObj [(''status'', JNum 404),
                                     (''message'', JStr ''Couldn't find left-pad@9.x.'')]\<rparr>),
        empty_world\<lparr>calls := [Got ''https://registry.npmjs.org/left-pad'']\<rparr>)
   \<and> handleResolveVersion offline (npm_package ''left-pad'' (Some ''9.x'')) ctx0
       (cached (npm_package ''left-pad'' (Some ''9.x'')) untagged_metadata)
     = (Inr (ctx0\<lparr>ctx_body := JObj [(''status'', JNum 404),
                                     (''message'', JStr ''Couldn't find left-pad@9.x.'')]\<rparr>),
        cached (npm_package ''left-pad'' (Some ''9.x'')) untagged_metadata)
   \<and> handleResolveVersion offline (npm_package ''left-pad'' (Some ''1.x'')) ctx0
       (cached (npm_package ''left-pad'' (Some ''1.x'')) left_pad_metadata)
     = (Inr (ctx0\<lparr>ctx_body := JObj [(''version'', JStr ''1.1.1'')]\<rparr>),
        cached (npm_package ''left-pad'' (Some ''1.x'')) left_pad_metadata)
   \<and> handleResolveVersion offline (npm_package ''left-pad'' (Some ''9.x'')) ctx0
       (cached (npm_package ''left-pad'' (Some ''9.x'')) left_pad_metadata)
     = (Inr (ctx0\<lparr>ctx_body := JObj [(''version'', JNull)]\<rparr>),
        cached (npm_package ''left-pad'' (Some ''9.x'')) left_pad_metadata)"
proof -
  let ?p = "npm_package ''left-pad'' (Some ''9.x'')"
  let ?q = "npm_package ''left-pad'' (Some ''1.x'')"
  have nf: "responseNotFound ?p ctx0
              = ctx0\<lparr>ctx_body := JObj [(''status'', JNum 404),
                                       (''message'', JStr ''Couldn't find left-pad@9.x.'')]\<rparr>"
    by (simp add: responseNotFound_def npm_package_def tpl_def)
  have miss: "redis_getAsync (keys_metadata ?p) empty_world = None"
    by (simp add: redis_getAsync_def empty_world_def)
  have 1: "handleResolveVersion offline ?p ctx0 empty_world
     = (Inr (responseNotFound ?p ctx0),
        empty_world\<lparr>calls := [Got ''https://registry.npmjs.org/left-pad'']\<rparr>)"
    using handleResolveVersion_outcomes[where e = offline and p = ?p and c = ctx0 and w = empty_world
        and err = "GotError RequestError None"
        and ?w1.0 = "empty_world\<lparr>calls := [Got ''https://registry.npmjs.org/left-pad'']\<rparr>"]
      miss fetchMetadata_offline[of "Some ''9.x''"]
    by blast
  have r2: "resolve (semver_Range offline) untagged_metadata (pversion ?p) = Inl TypeError"
    using resolve_untagged by (simp add: semver_Range_offline npm_package_def)
  have 2: "handleResolveVersion offline ?p ctx0 (cached ?p untagged_metadata)
     = (Inr (responseNotFound ?p ctx0), cached ?p untagged_metadata)"
    using handleResolveVersion_outcomes[where e = offline and p = ?p and c = ctx0
        and w = "cached ?p untagged_metadata" and ?w1.0 = "cached ?p untagged_metadata"
        and metadata = untagged_metadata and err = TypeError]
      getMetadata_untagged[of offline ?p] r2
    by blast
  have r3: "resolve (semver_Range offline) left_pad_metadata (pversion ?q) = Inr (JStr ''1.1.1'')"
    using resolve_left_pad_1x by (simp add: semver_Range_offline npm_package_def)
  have 3: "handleResolveVersion offline ?q ctx0 (cached ?q left_pad_metadata)
     = (Inr (ctx0\<lparr>ctx_body := JObj [(''version'', JStr ''1.1.1'')]\<rparr>), cached ?q left_pad_metadata)"
    using handleResolveVersion_outcomes[where e = offline and p = ?q and c = ctx0
        and w = "cached ?q left_pad_metadata" and ?w1.0 = "cached ?q left_pad_metadata"
        and metadata = left_pad_metadata and v = "JStr ''1.1.1''"]
      getMetadata_left_pad[of offline ?q] r3
    by blast
  have h4: "js_of (pversion ?p) \<notin> set (map JStr [''1.0.0'', ''1.1.1'', ''2.0.0''])"
    "hasOwnProperty (property ''tags'' left_pad_metadata) (tpl (pversion ?p)) = Inr False"
    "pversion ?p = Some ''9.x''" "''9.x'' \<noteq> ''latest''" "''9.x'' \<noteq> []"
    by (simp_all add: npm_package_def js_of_def tpl_def tags_left_pad)
  have ms: "maxSatisfying (semver_Range offline) [''2.0.0'', ''1.1.1'', ''1.0.0''] ''9.x'' = JNull"
    using maxSatisfying_9x by (simp add: semver_Range_offline)
  have 4: "handleResolveVersion offline ?p ctx0 (cached ?p left_pad_metadata)
     = (Inr (ctx0\<lparr>ctx_body := JObj [(''version'', JNull)]\<rparr>), cached ?p left_pad_metadata)"
    using handleResolveVersion_outcomes[where e = offline and p = ?p and c = ctx0
        and w = "cached ?p left_pad_metadata" and ?w1.0 = "cached ?p left_pad_metadata"
        and metadata = left_pad_metadata and vs = "map JStr [''1.0.0'', ''1.1.1'', ''2.0.0'']"
        and r = "''9.x''" and versions = "[''2.0.0'', ''1.1.1'', ''1.0.0'']"]
      getMetadata_left_pad[of offline ?p] versions_left_pad h4 release_versions_left_pad ms
    by blast
  from 1 2 3 4 show ?thesis unfolding nf by (intro conjI)
qed

text \<open>
  The claim as written fails on the range \<^verbatim>\<open>9.x\<close> against the versions \<^verbatim>\<open>1.0.0\<close>,
  \<^verbatim>\<open>1.1.1\<close>, \<^verbatim>\<open>2.0.0\<close>: the body is \<^verbatim>\<open>{version: null}\<close>, not the 404 payload.
\<close>

theorem handleResolveVersion_no_match:
  "handleResolveVersion offline (npm_package ''left-pad'' (Some ''9.x'')) ctx0
       (cached (npm_package ''left-pad'' (Some ''9.x'')) left_pad_metadata)
     = (Inr (ctx0\<lparr>ctx_body := JObj [(''version'', JNull)]\<rparr>),
        cached (npm_package ''left-pad'' (Some ''9.x'')) left_pad_metadata)
   \<and> ctx0\<lparr>ctx_body := JObj [(''version'', JNull)]\<rparr>
       \<noteq> ctx0\<lparr>ctx_body := JObj [(''status'', JNum 404),
                                (''message'', JStr ''Couldn't find left-pad@9.x.'')]\<rparr>"
proof -
  have "resolve xrange left_pad_metadata (Some ''9.x'') = Inr JNull"
    by (rule resolve_left_pad_9x)
  then have "handleResolveVersion offline (npm_package ''left-pad'' (Some ''9.x'')) ctx0
       (cached (npm_package ''left-pad'' (Some ''9.x'')) left_pad_metadata)
     = (Inr (ctx0\<lparr>ctx_body := JObj [(''version'', JNull)]\<rparr>),
        cached (npm_package ''left-pad'' (Some ''9.x'')) left_pad_metadata)"
    by (simp add: handleResolveVersion_def getResolvedVersion_def getMetadata_left_pad
        semver_Range_offline npm_package_def)
  moreover have "ctx0\<lparr>ctx_body := JObj [(''version'', JNull)]\<rparr>
       \<noteq> ctx0\<lparr>ctx_body := JObj [(''status'', JNum 404),
                                (''message'', JStr ''Couldn't find left-pad@9.x.'')]\<rparr>"
    by (simp add: ctx0_def)
  ultimately show ?thesis by (intro conjI)
qed

section \<open>fetchNpmMetadata\<close>


lemma Object_keys_JObj: "Object_keys (JObj kvs) = map fst kvs"
  by simp









section \<open>fetchGitHubMetadata\<close>

lemma loadMore_complete:
  "complete r \<Longrightarrow>
   loadMore versions r w =
     (Inr (metadata_gh (versions @ map (property ''name'') (listed r))),
      w\<lparr>calls := calls w @ replicate (next_pages r) GetNextPage\<rparr>)"
proof (induction r arbitrary: versions w)
  case (LastPage d)
  then show ?case by (auto simp: lodash_map_name_def)
next
  case (NextPage d nxt)
  then show ?case by (auto simp: lodash_map_name_def)
next
  case (NextPageFails d err)
  then show ?case by simp
qed

lemma fetchGitHubMetadata_complete:
  assumes "repos_getTags e user repo = Inr r" "complete r"
  shows "fetchGitHubMetadata e user repo w =
     (Inr (metadata_gh (map (property ''name'') (listed r))),
      w\<lparr>calls := calls w @ GetTags user repo 100 # replicate (next_pages r) GetNextPage\<rparr>)"
  using assms by (simp add: fetchGitHubMetadata_def loadMore_complete)

lemma property_name_tag: "property ''name'' (tag n) = JStr n"
  by (simp add: property_def tag_def)

lemma fetchGitHubMetadata_three_pages:
  assumes "repos_getTags e user repo = Inr (NextPage (Some (map tag p1)) (NextPage (Some (map tag p2)) (LastPage (Some (map tag p3)))))"
    and "length p1 = 100" "length p2 = 100" "length p3 = 37" "distinct (p1 @ p2 @ p3)"
  shows "\<exists>w1. fetchGitHubMetadata e user repo w = (Inr (metadata_gh (map JStr (p1 @ p2 @ p3))), w1)
           \<and> length (map JStr (p1 @ p2 @ p3)) = 237 \<and> distinct (map JStr (p1 @ p2 @ p3))"
proof -
  have "fetchGitHubMetadata e user repo w =
     (Inr (metadata_gh (map JStr (p1 @ p2 @ p3))),
      w\<lparr>calls := calls w @ GetTags user repo 100 # replicate 2 GetNextPage\<rparr>)"
    using fetchGitHubMetadata_complete[OF assms(1), of w]
    by (simp add: comp_def property_name_tag numeral_2_eq_2)
  moreover have "distinct (map JStr (p1 @ p2 @ p3))"
    using assms(5) by (simp only: distinct_map) (simp add: inj_on_def)
  ultimately show ?thesis using assms(2-4) by simp
qed

text \<open>
  Claim C6. \<^verbatim>\<open>fetchGitHubMetadata\<close> returns \<^verbatim>\<open>tags: []\<close>, an empty array, not an empty
  mapping. An array has the own property \<^verbatim>\<open>length\<close>, so the tag lookup of
  \<^verbatim>\<open>getResolvedVersion\<close> accepts the specifier \<^verbatim>\<open>length\<close> and the request is answered with
  \<^verbatim>\<open>{version: 0}\<close>. Run here on a repository with the single tag \<^verbatim>\<open>v1.0.0\<close> and an empty
  store.
\<close>

theorem fetchGitHubMetadata_tags_is_an_array:
  "fetchGitHubMetadata (hosting (LastPage (Some [tag ''v1.0.0'']))) ''jquery'' ''jquery'' empty_world
     = (Inr (JObj [(''tags'', JArr []), (''versions'', JArr [JStr ''v1.0.0''])]),
        empty_world\<lparr>calls := [GetTags ''jquery'' ''jquery'' 100]\<rparr>)
   \<and> hasOwnProperty (JArr []) ''length'' = Inr True
   \<and> fst (handleResolveVersion (hosting (LastPage (Some [tag ''v1.0.0''])))
            (gh_package ''jquery'' ''jquery'' (Some ''length'')) ctx0 empty_world)
     = Inr (ctx0\<lparr>ctx_body := JObj [(''version'', JNum 0)]\<rparr>)"
proof -
  let ?e = "hosting (LastPage (Some [tag ''v1.0.0'']))"
  let ?p = "gh_package ''jquery'' ''jquery'' (Some ''length'')"
  let ?m = "JObj [(''tags'', JArr []), (''versions'', JArr [JStr ''v1.0.0''])]"
  have f: "fetchGitHubMetadata ?e ''jquery'' ''jquery'' empty_world
     = (Inr ?m, empty_world\<lparr>calls := [GetTags ''jquery'' ''jquery'' 100]\<rparr>)"
    by (simp add: fetchGitHubMetadata_def hosting_def offline_def failing_def empty_world_def
        lodash_map_name_def property_name_tag metadata_gh_def)
  have n: "json_norm ?m = ?m" by simp
  have "getMetadata ?e ?p empty_world
          = (Inr ?m, redis_setAsync (keys_metadata ?p) (Text ?m) (Some 300)
                       (empty_world\<lparr>calls := [GetTags ''jquery'' ''jquery'' 100]\<rparr>))"
    using f
    by (simp add: getMetadata_def getMetadataAsJson_def redis_getAsync_def fetchMetadata_def
        gh_package_def JSON_stringify_def hosting_def offline_def failing_def config0_def
        empty_world_def)
  moreover have "resolve xrange ?m (Some ''length'') = Inr (JNum 0)"
    by code_simp
  ultimately have "fst (handleResolveVersion ?e ?p ctx0 empty_world)
     = Inr (ctx0\<lparr>ctx_body := JObj [(''version'', JNum 0)]\<rparr>)"
    by (simp add: handleResolveVersion_def getResolvedVersion_def gh_package_def hosting_def
        offline_def failing_def)
  with f show ?thesis by simp
qed

end
